theory Spec2Isabelle
  imports Main "HOL-Library.Sublist"
begin

section \<open>Strings\<close>

text \<open>
  Strings are lists of characters with code points below 256. An exception is modelled by
  the message of its \<^verbatim>\<open>Error\<close> object.
\<close>

type_synonym js_error = string

text \<open>\<^verbatim>\<open>String.prototype.toLowerCase\<close> on code points below 256: the letters A-Z and the
  Latin-1 capitals (192-214, 216-222) move up by 32.\<close>

definition toLowerCase_char :: "char \<Rightarrow> char" where
  "toLowerCase_char c =
     (let n = (of_char c :: nat)
      in if (65 \<le> n \<and> n \<le> 90) \<or> (192 \<le> n \<and> n \<le> 214) \<or> (216 \<le> n \<and> n \<le> 222)
         then char_of (n + 32) else c)"

definition toLowerCase :: "string \<Rightarrow> string" where
  "toLowerCase s = map toLowerCase_char s"

text \<open>\<^verbatim>\<open>s.includes(t)\<close>: \<open>t\<close> occurs in \<open>s\<close> as a contiguous run.\<close>

fun str_includes :: "string \<Rightarrow> string \<Rightarrow> bool" where
  "str_includes [] t = (t = [])"
| "str_includes (c # s) t = (prefix t (c # s) \<or> str_includes s t)"

section \<open>Engine calls: a trace of effects and a result or an exception\<close>

datatype waitUntil = load | networkidle

datatype glob = MediaGlob | AllGlob

datatype route_handler = AbortRoute | AdFilter

datatype effect =
    Console string
  | Launch
  | NewContext
  | Route glob route_handler
  | NewPage
  | SetExtraHTTPHeaders "(string \<times> string) list"
  | Goto string waitUntil int
  | WaitForTimeout int
  | WaitForSelector string int
  | Content
  | AllHeaders
  | Body
  | PageClose
  | ContextClose
  | BrowserClose

text \<open>
  An awaited computation yields the engine calls it made, in order, and either the value it
  resolved with (\<open>Inr\<close>) or the exception it rejected with (\<open>Inl\<close>).
\<close>

type_synonym 'a io = "effect list \<times> (js_error + 'a)"

definition io_return :: "'a \<Rightarrow> 'a io" where
  "io_return x = ([], Inr x)"

definition io_throw :: "js_error \<Rightarrow> 'a io" where
  "io_throw e = ([], Inl e)"

definition io_bind :: "'a io \<Rightarrow> ('a \<Rightarrow> 'b io) \<Rightarrow> 'b io" where
  "io_bind m f =
     (case snd m of
        Inl e \<Rightarrow> (fst m, Inl e)
      | Inr x \<Rightarrow> (fst m @ fst (f x), snd (f x)))"

definition io_catch :: "'a io \<Rightarrow> (js_error \<Rightarrow> 'a io) \<Rightarrow> 'a io" where
  "io_catch m h =
     (case snd m of
        Inl e \<Rightarrow> (fst m @ fst (h e), snd (h e))
      | Inr x \<Rightarrow> m)"

text \<open>\<open>call ev r\<close>: the engine call \<open>ev\<close> is made and settles as \<open>r\<close>.\<close>

definition call :: "effect \<Rightarrow> js_error + 'a \<Rightarrow> 'a io" where
  "call ev r = ([ev], r)"

section \<open>scrapePage\<close>

text \<open>
  The response object that \<^verbatim>\<open>page.goto\<close> resolves with: its status, what
  \<^verbatim>\<open>allHeaders()\<close> settles as, and what \<^verbatim>\<open>(await response.body()).toString("utf8")\<close>
  settles as (the body already decoded by the runtime's buffer decoder).
\<close>

record response =
  resp_status :: int
  resp_allHeaders :: "js_error + (string \<times> string) list"
  resp_body_utf8 :: "js_error + string"

text \<open>
  What the engine answers to the calls of one \<^verbatim>\<open>scrapePage\<close> attempt on a page.
  \<^verbatim>\<open>page.goto\<close> rejects, or resolves with a response or with \<^verbatim>\<open>null\<close>.
\<close>

record page_env =
  goto :: "js_error + response option"
  waitForTimeout :: "js_error + unit"
  waitForSelector :: "js_error + unit"
  page_content :: "js_error + string"

text \<open>A page is given by the engine's answers under each wait condition.\<close>

type_synonym page = "waitUntil \<Rightarrow> page_env"

record scrape_result =
  result_content :: string
  result_status :: "int option"
  result_headers :: "(string \<times> string) list option"

definition is_raw_content_type :: "(string \<times> string) option \<Rightarrow> bool" where
  "is_raw_content_type ct =
     (case ct of
        None \<Rightarrow> False
      | Some x \<Rightarrow> str_includes (snd x) ''application/json'' \<or> str_includes (snd x) ''text/plain'')"

definition scrapePage ::
  "page \<Rightarrow> string \<Rightarrow> waitUntil \<Rightarrow> int \<Rightarrow> int \<Rightarrow> string option \<Rightarrow> scrape_result io" where
  "scrapePage page url waitUntil waitAfterLoad timeout checkSelector =
     io_bind (call (Goto url waitUntil timeout) (goto (page waitUntil))) (\<lambda>response.
     io_bind (if waitAfterLoad > 0
              then call (WaitForTimeout waitAfterLoad) (waitForTimeout (page waitUntil))
              else io_return ()) (\<lambda>_.
     io_bind (case checkSelector of
                None \<Rightarrow> io_return ()
              | Some sel \<Rightarrow>
                  if sel = [] then io_return ()
                  else io_catch (call (WaitForSelector sel timeout) (waitForSelector (page waitUntil)))
                         (\<lambda>error. io_throw ''Required selector not found'')) (\<lambda>_.
     io_bind (call Content (page_content (page waitUntil))) (\<lambda>content.
     io_bind (case response of
                None \<Rightarrow> io_return (None, content)
              | Some r \<Rightarrow>
                  io_bind (call AllHeaders (resp_allHeaders r)) (\<lambda>headers.
                    if is_raw_content_type
                         (find (\<lambda>x. toLowerCase (fst x) = ''content-type'') headers)
                    then io_bind (call Body (resp_body_utf8 r)) (\<lambda>b. io_return (Some headers, b))
                    else io_return (Some headers, content))) (\<lambda>(headers, content).
     io_return \<lparr> result_content = content,
                 result_status = (case response of None \<Rightarrow> None | Some r \<Rightarrow> Some (resp_status r)),
                 result_headers = headers \<rparr>)))))"

text \<open>The blocks of \<^verbatim>\<open>scrapePage\<close>: lines 152-154, lines 156-162 and lines 164-171.\<close>

definition pause_after_load :: "page \<Rightarrow> waitUntil \<Rightarrow> int \<Rightarrow> unit io" where
  "pause_after_load page w waitAfterLoad =
     (if waitAfterLoad > 0
      then call (WaitForTimeout waitAfterLoad) (waitForTimeout (page w))
      else io_return ())"

definition require_selector :: "page \<Rightarrow> waitUntil \<Rightarrow> int \<Rightarrow> string option \<Rightarrow> unit io" where
  "require_selector page w tmo checkSelector =
     (case checkSelector of
        None \<Rightarrow> io_return ()
      | Some sel \<Rightarrow>
          if sel = [] then io_return ()
          else io_catch (call (WaitForSelector sel tmo) (waitForSelector (page w)))
                 (\<lambda>error. io_throw ''Required selector not found''))"

definition extract_content ::
  "page \<Rightarrow> waitUntil \<Rightarrow> response option \<Rightarrow> ((string \<times> string) list option \<times> string) io" where
  "extract_content page w response =
     io_bind (call Content (page_content (page w))) (\<lambda>content.
       case response of
         None \<Rightarrow> io_return (None, content)
       | Some r \<Rightarrow>
           io_bind (call AllHeaders (resp_allHeaders r)) (\<lambda>headers.
             if is_raw_content_type
                  (find (\<lambda>x. toLowerCase (fst x) = ''content-type'') headers)
             then io_bind (call Body (resp_body_utf8 r)) (\<lambda>b. io_return (Some headers, b))
             else io_return (Some headers, content)))"

text \<open>The navigations of a trace, and the number of times it closes the page.\<close>

fun navigations :: "effect list \<Rightarrow> (string \<times> waitUntil \<times> int) list" where
  "navigations [] = []"
| "navigations (Goto u w tmo # t) = (u, w, tmo) # navigations t"
| "navigations (_ # t) = navigations t"

definition page_closes :: "effect list \<Rightarrow> nat" where
  "page_closes t = length (filter (\<lambda>e. e = PageClose) t)"

section \<open>Module state and initializeBrowser\<close>

type_synonym handle = nat

text \<open>The module-level variables. \<open>browser\<close> and \<open>context\<close> are undefined until assigned.\<close>

record globals =
  browser :: "handle option"
  "context" :: "handle option"
  browserInitialized :: bool
  browserInitError :: "js_error option"
  initializationInProgress :: bool

definition initial_globals :: globals where
  "initial_globals =
     \<lparr> browser = None, context = None, browserInitialized = False,
       browserInitError = None, initializationInProgress = False \<rparr>"

text \<open>How the four awaited calls of \<^verbatim>\<open>initializeBrowser\<close> settle.\<close>

record init_env =
  launch :: "js_error + handle"
  newContext :: "js_error + handle"
  route_media :: "js_error + unit"
  route_all :: "js_error + unit"

text \<open>The \<^verbatim>\<open>catch\<close> block followed by the \<^verbatim>\<open>finally\<close> block.\<close>

definition init_failed :: "js_error \<Rightarrow> globals \<Rightarrow> globals" where
  "init_failed error g =
     g\<lparr> browserInitError := Some error, browserInitialized := False,
        initializationInProgress := False \<rparr>"

definition failure_log :: effect where
  "failure_log = Console ''Failed to initialize browser:''"

text \<open>
  \<^verbatim>\<open>await initializeBrowser()\<close> run to completion. It never rejects: every exception
  is caught and recorded.
\<close>

definition initializeBrowser :: "bool \<Rightarrow> init_env \<Rightarrow> globals \<Rightarrow> effect list \<times> globals" where
  "initializeBrowser BLOCK_MEDIA env g =
     (if initializationInProgress g
      then ([Console ''Browser initialization already in progress, skipping...''], g)
      else
        (let g0 = g\<lparr> initializationInProgress := True, browserInitError := None \<rparr>;
             t0 = [Console ''Initializing browser...'', Launch]
         in (case launch env of
               Inl error \<Rightarrow> (t0 @ [failure_log], init_failed error g0)
             | Inr b \<Rightarrow>
                 (let g1 = g0\<lparr> browser := Some b \<rparr>;
                      t1 = t0 @ [NewContext]
                  in (case newContext env of
                        Inl error \<Rightarrow> (t1 @ [failure_log], init_failed error g1)
                      | Inr c \<Rightarrow>
                          (let g2 = g1\<lparr> context := Some c \<rparr>;
                               t2 = t1 @ (if BLOCK_MEDIA then [Route MediaGlob AbortRoute] else [])
                           in (case (if BLOCK_MEDIA then route_media env else Inr ()) of
                                 Inl error \<Rightarrow> (t2 @ [failure_log], init_failed error g2)
                               | Inr _ \<Rightarrow>
                                   (let t3 = t2 @ [Route AllGlob AdFilter]
                                    in (case route_all env of
                                          Inl error \<Rightarrow> (t3 @ [failure_log], init_failed error g2)
                                        | Inr _ \<Rightarrow>
                                            (t3 @ [Console ''Browser successfully initialized''],
                                             g2\<lparr> browserInitialized := True,
                                                 initializationInProgress := False \<rparr>))))))))))"

section \<open>shutdownBrowser\<close>

record shutdown_env =
  context_close :: "js_error + unit"
  browser_close :: "js_error + unit"

definition shutdownBrowser :: "shutdown_env \<Rightarrow> globals \<Rightarrow> unit io" where
  "shutdownBrowser env g =
     io_bind (case context g of
                None \<Rightarrow> io_return ()
              | Some c \<Rightarrow> call ContextClose (context_close env)) (\<lambda>_.
     (case browser g of
        None \<Rightarrow> io_return ()
      | Some b \<Rightarrow> call BrowserClose (browser_close env)))"

section \<open>isValidUrl\<close>

text \<open>
  The runtime's \<^verbatim>\<open>URL\<close> constructor is a parameter: it returns the parsed URL or throws.
\<close>

record url_record =
  protocol :: string
  hostname :: string

type_synonym url_parser = "string \<Rightarrow> js_error + url_record"

definition isValidUrl :: "url_parser \<Rightarrow> string \<Rightarrow> bool" where
  "isValidUrl URL urlString = (case URL urlString of Inr _ \<Rightarrow> True | Inl _ \<Rightarrow> False)"

section \<open>The request interception installed on the context\<close>

definition AD_SERVING_DOMAINS :: "string list" where
  "AD_SERVING_DOMAINS =
     [''doubleclick.net'', ''adservice.google.com'', ''googlesyndication.com'',
      ''googletagservices.com'', ''googletagmanager.com'', ''google-analytics.com'',
      ''adsystem.com'', ''adservice.com'', ''adnxs.com'', ''ads-twitter.com'',
      ''facebook.net'', ''fbcdn.net'', ''amazon-adsystem.com'']"

definition MEDIA_EXTENSIONS :: "string list" where
  "MEDIA_EXTENSIONS =
     [''png'', ''jpg'', ''jpeg'', ''gif'', ''svg'', ''mp3'', ''mp4'', ''avi'', ''flac'',
      ''ogg'', ''wav'', ''webm'']"

text \<open>
  The two URL globs of the source, matched against the whole request URL:
  \<^verbatim>\<open>**/*.{png,...,webm}\<close> matches a URL that ends in a dot and one of the extensions, and
  \<^verbatim>\<open>**/*\<close> matches every URL.
\<close>

fun glob_matches :: "glob \<Rightarrow> string \<Rightarrow> bool" where
  "glob_matches MediaGlob u = list_ex (\<lambda>ext. suffix (''.'' @ ext) u) MEDIA_EXTENSIONS"
| "glob_matches AllGlob u = True"

datatype decision = Abort | Continue | Threw js_error

text \<open>The two route callbacks: the first aborts, the second filters by hostname.\<close>

fun run_route_handler :: "url_parser \<Rightarrow> route_handler \<Rightarrow> string \<Rightarrow> decision" where
  "run_route_handler URL AbortRoute request_url = Abort"
| "run_route_handler URL AdFilter request_url =
     (case URL request_url of
        Inl e \<Rightarrow> Threw e
      | Inr requestUrl \<Rightarrow>
          if list_ex (\<lambda>domain. str_includes (hostname requestUrl) domain) AD_SERVING_DOMAINS
          then Abort else Continue)"

text \<open>The routes a trace registered on the context, in registration order.\<close>

fun installed_routes :: "effect list \<Rightarrow> (glob \<times> route_handler) list" where
  "installed_routes [] = []"
| "installed_routes (Route g h # t) = (g, h) # installed_routes t"
| "installed_routes (_ # t) = installed_routes t"

text \<open>
  The engine's routing of one request. The browser library consults the registered routes
  from the most recently registered to the first; the first one whose glob matches runs its
  callback, and a callback that calls \<^verbatim>\<open>route.abort()\<close> or \<^verbatim>\<open>route.continue()\<close> settles the
  request (only \<^verbatim>\<open>route.fallback()\<close>, which the source never calls, would pass it on to an
  earlier route). A request that no route matches continues.
\<close>

definition dispatch :: "url_parser \<Rightarrow> (glob \<times> route_handler) list \<Rightarrow> string \<Rightarrow> decision" where
  "dispatch URL routes request_url =
     (case find (\<lambda>r. glob_matches (fst r) request_url) (rev routes) of
        None \<Rightarrow> Continue
      | Some r \<Rightarrow> run_route_handler URL (snd r) request_url)"

text \<open>
  The reading of the specification, for comparison: the rules are tried in the order in
  which they are written, media rule first.
\<close>

definition dispatch_in_registration_order ::
  "url_parser \<Rightarrow> (glob \<times> route_handler) list \<Rightarrow> string \<Rightarrow> decision" where
  "dispatch_in_registration_order URL routes request_url =
     (case find (\<lambda>r. glob_matches (fst r) request_url) routes of
        None \<Rightarrow> Continue
      | Some r \<Rightarrow> run_route_handler URL (snd r) request_url)"

section \<open>The /scrape handler\<close>

record UrlModel =
  url :: "string option"
  wait_after_load :: "int option"
  timeout :: "int option"
  headers :: "(string \<times> string) list option"
  check_selector :: "string option"

datatype reply_body =
    ErrorBody string
  | InitErrorBody string string
  | ScrapeBody string "int option" "string option"

text \<open>
  The handler either sends a response (status code and JSON body) or its promise rejects
  without any response being sent.
\<close>

datatype outcome = Responded int reply_body | Rejected js_error

record scrape_env =
  init_outcomes :: init_env
  newPage :: "js_error + unit"
  setExtraHTTPHeaders :: "js_error + unit"
  page_outcomes :: page

text \<open>
  Lines 280-294: the two strategies. \<open>Inl\<close> is the early return with the 500 response,
  \<open>Inr\<close> the result of the attempt that succeeded. \<^verbatim>\<open>page.close()\<close> is taken to resolve.
\<close>

definition strategies ::
  "page \<Rightarrow> string \<Rightarrow> int \<Rightarrow> int \<Rightarrow> string option \<Rightarrow> (outcome + scrape_result) io" where
  "strategies page u wait_ms timeout_ms selector =
     io_catch
       (io_bind (scrapePage page u load wait_ms timeout_ms selector)
          (\<lambda>result. io_return (Inr result)))
       (\<lambda>error.
          io_catch
            (io_bind (scrapePage page u networkidle wait_ms timeout_ms selector)
               (\<lambda>result. io_return (Inr result)))
            (\<lambda>finalError.
               io_bind (call PageClose (Inr ())) (\<lambda>_.
               io_return
                 (Inl (Responded 500 (ErrorBody ''An error occurred while fetching the page.''))))))"

text \<open>Lines 296-310. \<open>getError\<close> is the helper imported from \<^verbatim>\<open>./helpers/get_error\<close>.\<close>

definition respond :: "(int option \<Rightarrow> string option) \<Rightarrow> scrape_result \<Rightarrow> outcome io" where
  "respond getError result =
     (let pageError =
            (if result_status result \<noteq> Some 200 then getError (result_status result) else None)
      in io_bind (call PageClose (Inr ())) (\<lambda>_.
         io_return
           (Responded 200
              (ScrapeBody (result_content result) (result_status result)
                 (case pageError of
                    None \<Rightarrow> None
                  | Some m \<Rightarrow> if m = [] then None else Some m)))))"

text \<open>Lines 273-310: from the acquisition of the page to the response.\<close>

definition page_stage ::
  "(int option \<Rightarrow> string option) \<Rightarrow> scrape_env \<Rightarrow> globals \<Rightarrow> string \<Rightarrow> int \<Rightarrow> int \<Rightarrow>
   (string \<times> string) list option \<Rightarrow> string option \<Rightarrow> outcome io" where
  "page_stage getError env g u wait_ms timeout_ms hdrs selector =
     io_bind (case context g of
                None \<Rightarrow> io_throw ''TypeError: Cannot read properties of undefined''
              | Some c \<Rightarrow> call NewPage (newPage env)) (\<lambda>_.
     io_bind (case hdrs of
                None \<Rightarrow> io_return ()
              | Some h \<Rightarrow> call (SetExtraHTTPHeaders h) (setExtraHTTPHeaders env)) (\<lambda>_.
     io_bind (strategies (page_outcomes env) u wait_ms timeout_ms selector) (\<lambda>r.
       case r of
         Inl early \<Rightarrow> io_return early
       | Inr result \<Rightarrow> respond getError result)))"

definition not_ready :: "globals \<Rightarrow> bool" where
  "not_ready g = (browser g = None \<or> context g = None \<or> \<not> browserInitialized g)"

definition init_error_details :: "globals \<Rightarrow> string" where
  "init_error_details g =
     (case browserInitError g of
        None \<Rightarrow> ''Unknown error''
      | Some m \<Rightarrow> if m = [] then ''Unknown error'' else m)"

text \<open>Line 233: the defaults of the destructuring.\<close>

definition wait_after_load_of :: "UrlModel \<Rightarrow> int" where
  "wait_after_load_of body = (case wait_after_load body of None \<Rightarrow> 0 | Some n \<Rightarrow> n)"

definition timeout_of :: "UrlModel \<Rightarrow> int" where
  "timeout_of body = (case timeout body of None \<Rightarrow> 15000 | Some n \<Rightarrow> n)"

text \<open>Lines 255-257: the awaited initialization of a session that is not ready.\<close>

definition ensure_ready :: "bool \<Rightarrow> scrape_env \<Rightarrow> globals \<Rightarrow> effect list \<times> globals" where
  "ensure_ready BLOCK_MEDIA env g =
     (if not_ready g then initializeBrowser BLOCK_MEDIA (init_outcomes env) g else ([], g))"

definition scrape ::
  "url_parser \<Rightarrow> (int option \<Rightarrow> string option) \<Rightarrow> bool \<Rightarrow> scrape_env \<Rightarrow> globals \<Rightarrow> UrlModel \<Rightarrow>
   effect list \<times> globals \<times> outcome" where
  "scrape URL getError BLOCK_MEDIA env g body =
     (case url body of
        None \<Rightarrow> ([], g, Responded 400 (ErrorBody ''URL is required''))
      | Some u \<Rightarrow>
          if u = [] then ([], g, Responded 400 (ErrorBody ''URL is required''))
          else if \<not> isValidUrl URL u then ([], g, Responded 400 (ErrorBody ''Invalid URL''))
          else
            (case ensure_ready BLOCK_MEDIA env g of
               (t0, g') \<Rightarrow>
                 if not_ready g \<and> \<not> browserInitialized g'
                 then (t0, g',
                       Responded 500
                         (InitErrorBody ''Browser initialization failed'' (init_error_details g')))
                 else
                   (case page_stage getError env g' u (wait_after_load_of body) (timeout_of body)
                           (headers body) (check_selector body) of
                      (t1, Inl e) \<Rightarrow> (t0 @ t1, g', Rejected e)
                    | (t1, Inr out) \<Rightarrow> (t0 @ t1, g', out))))"

text \<open>The two responses of the page stage, named for the statements below.\<close>

definition fetch_failed_response :: outcome where
  "fetch_failed_response = Responded 500 (ErrorBody ''An error occurred while fetching the page.'')"

definition page_error :: "(int option \<Rightarrow> string option) \<Rightarrow> int option \<Rightarrow> string option" where
  "page_error getError st =
     (if st \<noteq> Some 200
      then (case getError st of None \<Rightarrow> None | Some m \<Rightarrow> if m = [] then None else Some m)
      else None)"

definition success_response :: "(int option \<Rightarrow> string option) \<Rightarrow> scrape_result \<Rightarrow> outcome" where
  "success_response getError r =
     Responded 200
       (ScrapeBody (result_content r) (result_status r) (page_error getError (result_status r)))"

definition set_headers_trace :: "(string \<times> string) list option \<Rightarrow> effect list" where
  "set_headers_trace hs = (case hs of None \<Rightarrow> [] | Some h \<Rightarrow> [SetExtraHTTPHeaders h])"

text \<open>
  The request passes the validation of lines 243-249; and the request reaches the two
  strategies: it is valid, the session is initialized once lines 255-271 are through, the
  page is acquired and the extra headers, if any, are set.
\<close>

definition request_valid :: "url_parser \<Rightarrow> UrlModel \<Rightarrow> bool" where
  "request_valid URL body =
     (case url body of None \<Rightarrow> False | Some u \<Rightarrow> u \<noteq> [] \<and> isValidUrl URL u)"

definition reaches_fetch :: "url_parser \<Rightarrow> bool \<Rightarrow> scrape_env \<Rightarrow> globals \<Rightarrow> UrlModel \<Rightarrow> bool" where
  "reaches_fetch URL BLOCK_MEDIA env g body =
     (request_valid URL body \<and>
      browserInitialized (snd (ensure_ready BLOCK_MEDIA env g)) \<and>
      context (snd (ensure_ready BLOCK_MEDIA env g)) \<noteq> None \<and>
      newPage env = Inr () \<and>
      (headers body = None \<or> setExtraHTTPHeaders env = Inr ()))"

text \<open>The result of the attempt that completed, if one of the two did.\<close>

definition fetch_result ::
  "page \<Rightarrow> string \<Rightarrow> int \<Rightarrow> int \<Rightarrow> string option \<Rightarrow> scrape_result option" where
  "fetch_result p u wait_ms timeout_ms selector =
     (case snd (scrapePage p u load wait_ms timeout_ms selector) of
        Inr r \<Rightarrow> Some r
      | Inl e \<Rightarrow>
          (case snd (scrapePage p u networkidle wait_ms timeout_ms selector) of
             Inr r \<Rightarrow> Some r
           | Inl e' \<Rightarrow> None))"

text \<open>
  Modelled from the spec: the helper \<^verbatim>\<open>getError\<close> of \<^verbatim>\<open>./helpers/get_error\<close> is not among
  the sources. The specification's ErrorClassifier gives no error for status 200 and
  otherwise a category: client-error range, server-error range, redirect-exhausted or
  unknown.
\<close>

definition getError_spec :: "int option \<Rightarrow> string option" where
  "getError_spec statusCode =
     (case statusCode of
        None \<Rightarrow> Some ''unknown''
      | Some n \<Rightarrow>
          if n = 200 then None
          else if 400 \<le> n \<and> n < 500 then Some ''client-error''
          else if 500 \<le> n \<and> n < 600 then Some ''server-error''
          else if 300 \<le> n \<and> n < 400 then Some ''redirect-exhausted''
          else Some ''unknown'')"

section \<open>Interleaving of initializations and readiness probes\<close>

text \<open>
  The runtime is single-threaded and cooperative: code runs without interruption from one
  \<^verbatim>\<open>await\<close> to the next. A suspended invocation of \<^verbatim>\<open>initializeBrowser\<close> is the await it
  is parked at.
\<close>

datatype init_pc = AwaitLaunch | AwaitNewContext | AwaitRouteMedia | AwaitRouteAll

record system =
  vars :: globals
  tasks :: "init_pc list"
  journal :: "effect list"

definition initial_system :: system where
  "initial_system = \<lparr> vars = initial_globals, tasks = [], journal = [] \<rparr>"

text \<open>A call of \<^verbatim>\<open>initializeBrowser()\<close>, up to its first await (lines 53-65).\<close>

definition call_initializeBrowser :: "system \<Rightarrow> system" where
  "call_initializeBrowser s =
     (if initializationInProgress (vars s)
      then s\<lparr> journal := journal s @
                 [Console ''Browser initialization already in progress, skipping...''] \<rparr>
      else s\<lparr> vars := (vars s)\<lparr> initializationInProgress := True, browserInitError := None \<rparr>,
              tasks := tasks s @ [AwaitLaunch],
              journal := journal s @ [Console ''Initializing browser...'', Launch] \<rparr>)"

text \<open>
  A suspended invocation resumes when its awaited call settles and runs to its next await
  or to its end: the effects it makes, where it parks next (if it does), the variables.
\<close>

fun resume ::
  "bool \<Rightarrow> init_pc \<Rightarrow> js_error + handle \<Rightarrow> globals \<Rightarrow> effect list \<times> init_pc option \<times> globals" where
  "resume BLOCK_MEDIA pc (Inl error) g = ([failure_log], None, init_failed error g)"
| "resume BLOCK_MEDIA AwaitLaunch (Inr h) g =
     ([NewContext], Some AwaitNewContext, g\<lparr> browser := Some h \<rparr>)"
| "resume BLOCK_MEDIA AwaitNewContext (Inr h) g =
     (if BLOCK_MEDIA
      then ([Route MediaGlob AbortRoute], Some AwaitRouteMedia, g\<lparr> context := Some h \<rparr>)
      else ([Route AllGlob AdFilter], Some AwaitRouteAll, g\<lparr> context := Some h \<rparr>))"
| "resume BLOCK_MEDIA AwaitRouteMedia (Inr h) g =
     ([Route AllGlob AdFilter], Some AwaitRouteAll, g)"
| "resume BLOCK_MEDIA AwaitRouteAll (Inr h) g =
     ([Console ''Browser successfully initialized''], None,
      g\<lparr> browserInitialized := True, initializationInProgress := False \<rparr>)"

datatype probe_reply =
    Ready
  | NotReadyError string
  | NotReadyMessage string

text \<open>
  The readiness handler (lines 186-230): the status code, the body, and the system after
  it. It has no await: the call of \<^verbatim>\<open>initializeBrowser()\<close> on line 213 is not awaited, so
  the handler responds while that invocation is parked at the launch.
\<close>

definition readiness :: "system \<Rightarrow> (int \<times> probe_reply) \<times> system" where
  "readiness s =
     (if browserInitialized (vars s) then ((200, Ready), s)
      else (case browserInitError (vars s) of
              Some error \<Rightarrow> ((503, NotReadyError error), s)
            | None \<Rightarrow>
                if initializationInProgress (vars s)
                then ((503, NotReadyMessage ''Browser initialization in progress''), s)
                else if \<not> initializationInProgress (vars s) \<and> \<not> browserInitialized (vars s)
                then ((503, NotReadyMessage ''Browser initialization started''),
                      call_initializeBrowser s)
                else ((503, NotReadyMessage ''Unknown state''), s)))"

datatype event =
    CallInitialize
  | Probe
  | Settle nat "js_error + handle"

text \<open>
  One step of the system: somebody calls \<^verbatim>\<open>initializeBrowser()\<close> (the start-up on line 314,
  a scrape request on line 257), a readiness probe is served, or the awaited call of the
  \<open>i\<close>-th suspended invocation settles, with any outcome. Settling is possible only for an
  invocation that exists.
\<close>

fun fire :: "bool \<Rightarrow> event \<Rightarrow> system \<Rightarrow> system option" where
  "fire BLOCK_MEDIA CallInitialize s = Some (call_initializeBrowser s)"
| "fire BLOCK_MEDIA Probe s = Some (snd (readiness s))"
| "fire BLOCK_MEDIA (Settle i r) s =
     (if i < length (tasks s)
      then (case resume BLOCK_MEDIA (tasks s ! i) r (vars s) of
              (t, next_pc, g) \<Rightarrow>
                Some (s\<lparr> vars := g,
                        tasks := take i (tasks s) @
                                 (case next_pc of None \<Rightarrow> [] | Some pc \<Rightarrow> [pc]) @
                                 drop (Suc i) (tasks s),
                        journal := journal s @ t \<rparr>))
      else None)"

fun run :: "bool \<Rightarrow> event list \<Rightarrow> system \<Rightarrow> system option" where
  "run BLOCK_MEDIA [] s = Some s"
| "run BLOCK_MEDIA (e # es) s =
     (case fire BLOCK_MEDIA e s of
        None \<Rightarrow> None
      | Some s' \<Rightarrow> run BLOCK_MEDIA es s')"

definition launches :: "effect list \<Rightarrow> nat" where
  "launches t = length (filter (\<lambda>e. e = Launch) t)"

definition launches_in_progress :: "system \<Rightarrow> nat" where
  "launches_in_progress s = length (filter (\<lambda>pc. pc = AwaitLaunch) (tasks s))"

text \<open>The invariant of the interleaving: the flag is set exactly while an invocation is
  suspended, and at most one is.\<close>

definition single_flight_inv :: "system \<Rightarrow> bool" where
  "single_flight_inv s =
     ((initializationInProgress (vars s) \<longleftrightarrow> tasks s \<noteq> []) \<and> length (tasks s) \<le> 1)"

text \<open>The calls of \<^verbatim>\<open>initializeBrowser\<close> in a trace: each call logs one of two lines on entry.\<close>

definition initialize_calls :: "effect list \<Rightarrow> nat" where
  "initialize_calls t =
     length (filter (\<lambda>e. e = Console ''Initializing browser...'' \<or>
                          e = Console ''Browser initialization already in progress, skipping...'') t)"

text \<open>
  The awaited initialization as an interleaving without interference: the call, then the
  outcomes of its awaits fed to the one suspended invocation until it ends.
\<close>

fun settle_all :: "bool \<Rightarrow> (js_error + handle) list \<Rightarrow> system \<Rightarrow> system" where
  "settle_all BLOCK_MEDIA [] s = s"
| "settle_all BLOCK_MEDIA (r # rs) s =
     (case fire BLOCK_MEDIA (Settle 0 r) s of
        None \<Rightarrow> s
      | Some s' \<Rightarrow> settle_all BLOCK_MEDIA rs s')"

definition as_handle :: "js_error + unit \<Rightarrow> js_error + handle" where
  "as_handle r = (case r of Inl e \<Rightarrow> Inl e | Inr _ \<Rightarrow> Inr 0)"

definition await_outcomes :: "bool \<Rightarrow> init_env \<Rightarrow> (js_error + handle) list" where
  "await_outcomes BLOCK_MEDIA env =
     [launch env, newContext env] @
     (if BLOCK_MEDIA then [as_handle (route_media env)] else []) @
     [as_handle (route_all env)]"

section \<open>Sample inputs\<close>

text \<open>A target that serves the plain text \<open>hello\<close>, which the browser renders inside a document.\<close>

definition plain_response :: response where
  "plain_response =
     \<lparr> resp_status = 200,
       resp_allHeaders = Inr [(''date'', ''Tue, 03 Nov 2026 10:00:00 GMT''),
                              (''content-type'', ''text/plain; charset=utf-8'')],
       resp_body_utf8 = Inr ''hello'' \<rparr>"

definition plain_page :: page where
  "plain_page w =
     \<lparr> goto = Inr (Some plain_response), waitForTimeout = Inr (), waitForSelector = Inr (),
       page_content = Inr ''<html><head></head><body><pre>hello</pre></body></html>'' \<rparr>"

text \<open>A session that is ready, an engine whose calls all succeed on a given page, a parser
  that knows a few URLs.\<close>

definition ready_globals :: globals where
  "ready_globals =
     \<lparr> browser = Some 1, context = Some 2, browserInitialized = True,
       browserInitError = None, initializationInProgress = False \<rparr>"

definition sample_env :: "page \<Rightarrow> scrape_env" where
  "sample_env p =
     \<lparr> init_outcomes =
         \<lparr> launch = Inr 1, newContext = Inr 2, route_media = Inr (), route_all = Inr () \<rparr>,
       newPage = Inr (), setExtraHTTPHeaders = Inr (), page_outcomes = p \<rparr>"

definition sample_URL :: url_parser where
  "sample_URL s =
     (if s = ''https://example.com/'' then Inr \<lparr> protocol = ''https:'', hostname = ''example.com'' \<rparr>
      else if s = ''https://example.com/logo.png''
      then Inr \<lparr> protocol = ''https:'', hostname = ''example.com'' \<rparr>
      else if s = ''https://stats.g.doubleclick.net/collect''
      then Inr \<lparr> protocol = ''https:'', hostname = ''stats.g.doubleclick.net'' \<rparr>
      else if s = ''mailto:someone@example.com''
      then Inr \<lparr> protocol = ''mailto:'', hostname = [] \<rparr>
      else Inl ''TypeError: Invalid URL'')"

definition sample_request :: "string \<Rightarrow> UrlModel" where
  "sample_request u =
     \<lparr> url = Some u, wait_after_load = None, timeout = None, headers = None,
       check_selector = None \<rparr>"

text \<open>A page that stays unreachable under \<open>load\<close> and answers under \<open>networkidle\<close>.\<close>

definition slow_page :: page where
  "slow_page w =
     (case w of
        load \<Rightarrow> \<lparr> goto = Inl ''Timeout 15000ms exceeded'', waitForTimeout = Inr (),
                  waitForSelector = Inr (), page_content = Inr [] \<rparr>
      | networkidle \<Rightarrow> plain_page networkidle)"

text \<open>A page whose navigation succeeds and on which a required selector never appears; a
  page on which it appears under \<open>networkidle\<close> only; a request that requires it.\<close>

definition html_response :: response where
  "html_response =
     \<lparr> resp_status = 200,
       resp_allHeaders = Inr [(''content-type'', ''text/html; charset=utf-8'')],
       resp_body_utf8 = Inr ''<html><body><p>text</p></body></html>'' \<rparr>"

definition missing_selector_page :: page where
  "missing_selector_page w =
     \<lparr> goto = Inr (Some html_response), waitForTimeout = Inr (),
       waitForSelector = Inl ''Timeout 15000ms exceeded'',
       page_content = Inr ''<html><head></head><body><p>text</p></body></html>'' \<rparr>"

definition late_selector_page :: page where
  "late_selector_page w =
     (case w of
        load \<Rightarrow> missing_selector_page load
      | networkidle \<Rightarrow> (missing_selector_page networkidle)\<lparr> waitForSelector := Inr () \<rparr>)"

definition selector_request :: UrlModel where
  "selector_request =
     \<lparr> url = Some ''https://example.com/'', wait_after_load = Some 500, timeout = None,
       headers = None, check_selector = Some ''#missing'' \<rparr>"

text \<open>A target that answers 404 with an error document.\<close>

definition not_found_page :: page where
  "not_found_page w =
     \<lparr> goto = Inr (Some \<lparr> resp_status = 404,
                           resp_allHeaders = Inr [(''content-type'', ''text/html'')],
                           resp_body_utf8 = Inr ''<h1>Not Found</h1>'' \<rparr>),
       waitForTimeout = Inr (), waitForSelector = Inr (),
       page_content = Inr ''<html><head></head><body><h1>Not Found</h1></body></html>'' \<rparr>"

text \<open>A request with extra headers, and an engine that rejects them.\<close>

definition headers_request :: UrlModel where
  "headers_request =
     \<lparr> url = Some ''https://example.com/'', wait_after_load = None, timeout = None,
       headers = Some [(''X-Test'', ''1'')], check_selector = None \<rparr>"

definition rejecting_headers_env :: scrape_env where
  "rejecting_headers_env =
     (sample_env plain_page)
       \<lparr> setExtraHTTPHeaders := Inl ''page.setExtraHTTPHeaders: Target page has been closed'' \<rparr>"

text \<open>An initialization whose calls all succeed, and a shutdown whose first close fails.\<close>

definition ok_init :: init_env where
  "ok_init = \<lparr> launch = Inr 1, newContext = Inr 2, route_media = Inr (), route_all = Inr () \<rparr>"

definition failing_context_close :: shutdown_env where
  "failing_context_close =
     \<lparr> context_close = Inl ''browserContext.close: Connection closed'',
       browser_close = Inr () \<rparr>"

definition ok_shutdown :: shutdown_env where
  "ok_shutdown = \<lparr> context_close = Inr (), browser_close = Inr () \<rparr>"

text \<open>Three calls of \<^verbatim>\<open>initializeBrowser\<close> and a probe before the launch settles, and the system
  they lead to; a launch that fails, and the system it leads to.\<close>

definition concurrent_calls :: "event list" where
  "concurrent_calls = [CallInitialize, Probe, CallInitialize, CallInitialize]"

definition launching_system :: system where
  "launching_system =
     \<lparr> vars = \<lparr> browser = None, context = None, browserInitialized = False,
                browserInitError = None, initializationInProgress = True \<rparr>,
       tasks = [AwaitLaunch],
       journal = [Console ''Initializing browser...'', Launch,
                  Console ''Browser initialization already in progress, skipping...'',
                  Console ''Browser initialization already in progress, skipping...''] \<rparr>"

definition failed_launch :: "event list" where
  "failed_launch = [CallInitialize, Settle 0 (Inl ''browserType.launch: Executable does not exist'')]"

definition failed_system :: system where
  "failed_system =
     \<lparr> vars = \<lparr> browser = None, context = None, browserInitialized = False,
                browserInitError = Some ''browserType.launch: Executable does not exist'',
                initializationInProgress = False \<rparr>,
       tasks = [],
       journal = [Console ''Initializing browser...'', Launch, failure_log] \<rparr>"

text \<open>An engine whose launch fails.\<close>

definition failing_launch_env :: scrape_env where
  "failing_launch_env =
     (sample_env plain_page)
       \<lparr> init_outcomes :=
           \<lparr> launch = Inl ''browserType.launch: Executable does not exist'',
             newContext = Inr 2, route_media = Inr (), route_all = Inr () \<rparr> \<rparr>"




text \<open>A system whose session is ready.\<close>

definition ready_system :: system where
  "ready_system = \<lparr> vars = ready_globals, tasks = [], journal = [] \<rparr>"

section \<open>Properties\<close>

subsection \<open>Sequencing and catching\<close>

lemma io_bind_Inl [simp]: "io_bind (t, Inl e) f = (t, Inl e)"
  by (simp add: io_bind_def)

lemma io_bind_Inr [simp]: "io_bind (t, Inr x) f = (t @ fst (f x), snd (f x))"
  by (simp add: io_bind_def)

lemma io_catch_Inl [simp]: "io_catch (t, Inl e) h = (t @ fst (h e), snd (h e))"
  by (simp add: io_catch_def)

lemma io_catch_Inr [simp]: "io_catch (t, Inr x) h = (t, Inr x)"
  by (simp add: io_catch_def)

lemma io_bind_return [simp]: "io_bind (io_return x) f = f x"
  by (simp add: io_return_def)

lemma io_bind_assoc: "io_bind (io_bind m f) g = io_bind m (\<lambda>x. io_bind (f x) g)"
  by (cases m; cases "snd m") (auto simp: io_bind_def split: sum.splits)

lemma io_bind_Inr_iff:
  "io_bind m f = (t, Inr y) \<longleftrightarrow> (\<exists>t1 x t2. m = (t1, Inr x) \<and> f x = (t2, Inr y) \<and> t = t1 @ t2)"
  by (cases m; cases "snd m") (auto simp: io_bind_def prod_eq_iff split: sum.splits)

lemma fst_io_bind:
  "fst (io_bind m f) = fst m @ (case snd m of Inl e \<Rightarrow> [] | Inr x \<Rightarrow> fst (f x))"
  by (simp add: io_bind_def split: sum.splits)

lemma fst_io_catch:
  "fst (io_catch m h) = fst m @ (case snd m of Inl e \<Rightarrow> fst (h e) | Inr x \<Rightarrow> [])"
  by (simp add: io_catch_def split: sum.splits)

lemma str_includes_sublist: "str_includes s t \<longleftrightarrow> sublist t s"
  by (induction s) (simp_all add: sublist_Cons_right)

subsection \<open>scrapePage\<close>

lemma scrapePage_blocks:
  "scrapePage page u w wal tmo sel =
     io_bind (call (Goto u w tmo) (goto (page w))) (\<lambda>response.
     io_bind (pause_after_load page w wal) (\<lambda>_.
     io_bind (require_selector page w tmo sel) (\<lambda>_.
     io_bind (extract_content page w response) (\<lambda>(hs, c).
     io_return \<lparr> result_content = c,
                 result_status = (case response of None \<Rightarrow> None | Some r \<Rightarrow> Some (resp_status r)),
                 result_headers = hs \<rparr>))))"
  by (simp add: scrapePage_def pause_after_load_def require_selector_def extract_content_def
        io_bind_assoc)

lemma navigations_append [simp]: "navigations (a @ b) = navigations a @ navigations b"
  by (induction a rule: navigations.induct) simp_all

lemma page_closes_append [simp]: "page_closes (a @ b) = page_closes a + page_closes b"
  by (simp add: page_closes_def)

lemma page_closes_simps [simp]:
  "page_closes [] = 0"
  "page_closes (e # t) = (if e = PageClose then 1 else 0) + page_closes t"
  by (simp_all add: page_closes_def)

lemma pause_quiet [simp]:
  "navigations (fst (pause_after_load page w wal)) = []"
  "page_closes (fst (pause_after_load page w wal)) = 0"
  by (simp_all add: pause_after_load_def call_def io_return_def)

lemma selector_quiet [simp]:
  "navigations (fst (require_selector page w tmo sel)) = []"
  "page_closes (fst (require_selector page w tmo sel)) = 0"
  by (simp_all add: require_selector_def call_def io_return_def io_throw_def
        fst_io_catch split: option.splits sum.splits)

lemma extract_quiet [simp]:
  "navigations (fst (extract_content page w response)) = []"
  "page_closes (fst (extract_content page w response)) = 0"
  by (simp_all add: extract_content_def call_def io_return_def
        fst_io_bind split: option.splits sum.splits)

lemma scrapePage_navigations:
  "navigations (fst (scrapePage page u w wal tmo sel)) = [(u, w, tmo)]"
  by (simp add: scrapePage_blocks fst_io_bind call_def io_return_def split: sum.splits prod.splits)

lemma scrapePage_page_closes:
  "page_closes (fst (scrapePage page u w wal tmo sel)) = 0"
  by (simp add: scrapePage_blocks fst_io_bind call_def io_return_def split: sum.splits prod.splits)

lemma call_eq [simp]: "call ev r = (t, x) \<longleftrightarrow> t = [ev] \<and> r = x"
  by (auto simp: call_def)

lemma io_return_eq [simp]: "io_return v = (t, x) \<longleftrightarrow> t = [] \<and> x = Inr v"
  by (auto simp: io_return_def)





subsection \<open>The handler\<close>

lemma strategies_cases:
  "strategies p u wal tmo sel =
     (case scrapePage p u load wal tmo sel of
        (t1, Inr r) \<Rightarrow> (t1, Inr (Inr r))
      | (t1, Inl e) \<Rightarrow>
          (case scrapePage p u networkidle wal tmo sel of
             (t2, Inr r) \<Rightarrow> (t1 @ t2, Inr (Inr r))
           | (t2, Inl e') \<Rightarrow> (t1 @ t2 @ [PageClose], Inr (Inl fetch_failed_response))))"
  by (simp add: strategies_def fetch_failed_response_def call_def io_return_def
        split: prod.splits sum.splits)

lemma respond_eq:
  "respond getError r = ([PageClose], Inr (success_response getError r))"
  by (simp add: respond_def success_response_def page_error_def call_def io_return_def Let_def)

lemma page_stage_served:
  assumes "context g = Some c" "newPage env = Inr ()"
      and "headers_in = None \<or> setExtraHTTPHeaders env = Inr ()"
      and "strategies (page_outcomes env) u wal tmo sel = (ts, Inr s)"
  shows "page_stage getError env g u wal tmo headers_in sel =
           ([NewPage] @ set_headers_trace headers_in @ ts @
              (case s of Inl early \<Rightarrow> [] | Inr r \<Rightarrow> [PageClose]),
            Inr (case s of Inl early \<Rightarrow> early | Inr r \<Rightarrow> success_response getError r))"
  using assms
  by (cases headers_in; cases s)
     (simp_all add: page_stage_def set_headers_trace_def call_def io_return_def respond_eq)

lemma strategies_total: "\<exists>ts s. strategies p u wal tmo sel = (ts, Inr s)"
  by (simp add: strategies_cases split: prod.splits sum.splits)

lemma scrape_served:
  assumes "url body = Some u" "u \<noteq> []" "isValidUrl URL u"
      and "ensure_ready B env g = (t0, g')" "browserInitialized g'" "context g' = Some c"
      and "newPage env = Inr ()"
      and "headers body = None \<or> setExtraHTTPHeaders env = Inr ()"
      and "strategies (page_outcomes env) u (wait_after_load_of body) (timeout_of body)
             (check_selector body) = (ts, Inr s)"
  shows "scrape URL getError B env g body =
           (t0 @ [NewPage] @ set_headers_trace (headers body) @ ts @
              (case s of Inl early \<Rightarrow> [] | Inr r \<Rightarrow> [PageClose]),
            g',
            (case s of Inl early \<Rightarrow> early | Inr r \<Rightarrow> success_response getError r))"
  using assms(1-5) page_stage_served [OF assms(6-9)]
  by (simp add: scrape_def)

lemma initializeBrowser_navigations [simp]:
  "navigations (fst (initializeBrowser B e g)) = []"
  by (simp add: initializeBrowser_def failure_log_def Let_def split: sum.splits)

lemma ensure_ready_navigations:
  "ensure_ready B env g = (t0, g') \<Longrightarrow> navigations t0 = []"
  by (auto simp: ensure_ready_def split: if_splits dest: arg_cong [where f = "\<lambda>p. navigations (fst p)"])

lemma set_headers_navigations [simp]: "navigations (set_headers_trace hs) = []"
  by (simp add: set_headers_trace_def split: option.splits)

lemma reaches_fetchD:
  assumes "reaches_fetch URL B env g body"
  obtains u t0 g' c where "url body = Some u" "u \<noteq> []" "isValidUrl URL u"
    "ensure_ready B env g = (t0, g')" "browserInitialized g'" "context g' = Some c"
    "newPage env = Inr ()" "headers body = None \<or> setExtraHTTPHeaders env = Inr ()"
  using assms
  by (cases "ensure_ready B env g")
     (auto simp: reaches_fetch_def request_valid_def split: option.splits)

subsection \<open>Initialization\<close>

text \<open>
  The two models of the initialization agree: the awaited call of \<open>initializeBrowser\<close> is the
  interleaving in which nothing else runs.
\<close>

lemma initializeBrowser_as_interleaving:
  assumes "\<not> initializationInProgress g"
  shows "(let s' = settle_all B (await_outcomes B env)
                     (call_initializeBrowser \<lparr> vars = g, tasks = [], journal = [] \<rparr>)
          in (journal s', vars s') = initializeBrowser B env g \<and> tasks s' = [])"
  using assms
  by (cases "launch env"; cases "newContext env"; cases "route_media env"; cases "route_all env";
      cases B)
     (simp_all add: initializeBrowser_def call_initializeBrowser_def await_outcomes_def
        as_handle_def Let_def)

lemma initializeBrowser_records_error:
  assumes "initializeBrowser B env g = (t, g')" and "\<not> initializationInProgress g"
      and "\<not> browserInitialized g'"
  shows "\<exists>m. browserInitError g' = Some m"
  using assms
  by (auto simp: initializeBrowser_def init_failed_def Let_def split: sum.splits if_splits)

subsection \<open>The responses of the handler\<close>

lemma scrape_two_strategies:
  assumes "reaches_fetch URL B env g body" and "url body = Some u"
      and "scrapePage (page_outcomes env) u load (wait_after_load_of body) (timeout_of body)
             (check_selector body) = (t1, r1)"
      and "scrapePage (page_outcomes env) u networkidle (wait_after_load_of body) (timeout_of body)
             (check_selector body) = (t2, r2)"
  shows "\<exists>t g'. scrape URL getError B env g body =
            (t, g',
             (case r1 of
                Inr r \<Rightarrow> success_response getError r
              | Inl e1 \<Rightarrow>
                  (case r2 of
                     Inr r \<Rightarrow> success_response getError r
                   | Inl e2 \<Rightarrow> fetch_failed_response))) \<and>
          navigations t =
            (u, load, timeout_of body) #
            (case r1 of Inr r \<Rightarrow> [] | Inl e1 \<Rightarrow> [(u, networkidle, timeout_of body)]) \<and>
          (\<forall>e. goto (page_outcomes env load) = Inl e \<longrightarrow> r1 = Inl e)"
proof -
  from assms(1) obtain u' t0 g' c where h: "url body = Some u'" "u' \<noteq> []" "isValidUrl URL u'"
    "ensure_ready B env g = (t0, g')" "browserInitialized g'" "context g' = Some c"
    "newPage env = Inr ()" "headers body = None \<or> setExtraHTTPHeaders env = Inr ()"
    by (rule reaches_fetchD)
  with assms(2) have u: "u' = u" by simp
  have n0: "navigations t0 = []" using h(4) by (rule ensure_ready_navigations)
  have n1: "navigations t1 = [(u, load, timeout_of body)]"
    using scrapePage_navigations [of "page_outcomes env" u load "wait_after_load_of body"
        "timeout_of body" "check_selector body"] assms(3) by simp
  have n2: "navigations t2 = [(u, networkidle, timeout_of body)]"
    using scrapePage_navigations [of "page_outcomes env" u networkidle "wait_after_load_of body"
        "timeout_of body" "check_selector body"] assms(4) by simp
  obtain ts s where st: "strategies (page_outcomes env) u (wait_after_load_of body)
      (timeout_of body) (check_selector body) = (ts, Inr s)"
    using strategies_total by blast
  have served: "scrape URL getError B env g body =
           (t0 @ [NewPage] @ set_headers_trace (headers body) @ ts @
              (case s of Inl early \<Rightarrow> [] | Inr r \<Rightarrow> [PageClose]),
            g',
            (case s of Inl early \<Rightarrow> early | Inr r \<Rightarrow> success_response getError r))"
    using scrape_served [OF h(1-3) h(4-8)] st u by simp
  have nav_err: "\<forall>e. goto (page_outcomes env load) = Inl e \<longrightarrow> r1 = Inl e"
    using assms(3) by (auto simp: scrapePage_blocks call_def)
  show ?thesis
  proof (cases r1)
    case (Inr r)
    with st assms(3) have "ts = t1" "s = Inr r" by (simp_all add: strategies_cases)
    with served Inr n0 n1 nav_err show ?thesis by simp
  next
    case l1: (Inl e1)
    show ?thesis
    proof (cases r2)
      case (Inr r)
      with st assms(3,4) l1 have "ts = t1 @ t2" "s = Inr r" by (simp_all add: strategies_cases)
      with served Inr l1 n0 n1 n2 nav_err show ?thesis by simp
    next
      case (Inl e2)
      with st assms(3,4) l1 have "ts = t1 @ t2 @ [PageClose]" "s = Inl fetch_failed_response"
        by (simp_all add: strategies_cases)
      with served Inl l1 n0 n1 n2 nav_err show ?thesis by simp
    qed
  qed
qed

lemma scrapePage_selector_missing:
  assumes "sel \<noteq> []"
      and "goto (p w) = Inr response"
      and "wal \<le> 0 \<or> waitForTimeout (p w) = Inr ()"
      and "waitForSelector (p w) = Inl e"
  shows "scrapePage p u w wal tmo (Some sel) =
           ([Goto u w tmo] @ (if 0 < wal then [WaitForTimeout wal] else []) @
              [WaitForSelector sel tmo],
            Inl ''Required selector not found'')"
  using assms
  by (auto simp: scrapePage_blocks pause_after_load_def require_selector_def call_def
        io_return_def io_throw_def)

lemma strategies_fetch_result:
  "\<exists>ts. strategies p u wal tmo sel =
     (ts, Inr (case fetch_result p u wal tmo sel of
                 Some r \<Rightarrow> Inr r
               | None \<Rightarrow> Inl fetch_failed_response))"
  by (auto simp: strategies_cases fetch_result_def split: prod.splits sum.splits)

lemma page_stage_responds:
  assumes "page_stage getError env g u wal tmo hs sel = (t1, Inr out)"
  shows "out = (case fetch_result (page_outcomes env) u wal tmo sel of
                  Some r \<Rightarrow> success_response getError r
                | None \<Rightarrow> fetch_failed_response)"
proof -
  obtain ts where st: "strategies (page_outcomes env) u wal tmo sel =
     (ts, Inr (case fetch_result (page_outcomes env) u wal tmo sel of
                 Some r \<Rightarrow> Inr r
               | None \<Rightarrow> Inl fetch_failed_response))"
    using strategies_fetch_result by blast
  from assms show ?thesis
    by (cases "fetch_result (page_outcomes env) u wal tmo sel")
       (auto simp: page_stage_def io_bind_Inr_iff st respond_eq io_return_def)
qed

lemma scrape_responses:
  assumes "scrape URL getError B env g body = (t, g', Responded code b)"
  shows "(code = 400 \<and> \<not> request_valid URL body) \<or>
         (code = 500 \<and> request_valid URL body \<and> \<not> browserInitialized g' \<and>
            b = InitErrorBody ''Browser initialization failed'' (init_error_details g')) \<or>
         (request_valid URL body \<and>
            (\<exists>u. url body = Some u \<and>
               Responded code b =
                 (case fetch_result (page_outcomes env) u (wait_after_load_of body)
                         (timeout_of body) (check_selector body) of
                    Some r \<Rightarrow> success_response getError r
                  | None \<Rightarrow> fetch_failed_response)))"
proof (cases "url body")
  case None
  with assms show ?thesis by (simp add: scrape_def request_valid_def)
next
  case (Some u)
  show ?thesis
  proof (cases "u = [] \<or> \<not> isValidUrl URL u")
    case True
    with assms Some show ?thesis by (auto simp: scrape_def request_valid_def split: if_splits)
  next
    case False
    then have valid: "request_valid URL body" using Some by (simp add: request_valid_def)
    obtain t0 g0 where er: "ensure_ready B env g = (t0, g0)" by (cases "ensure_ready B env g")
    show ?thesis
    proof (cases "not_ready g \<and> \<not> browserInitialized g0")
      case True
      with assms Some False er valid show ?thesis by (auto simp: scrape_def)
    next
      case nr: False
      obtain t1 r1 where ps: "page_stage getError env g0 u (wait_after_load_of body)
          (timeout_of body) (headers body) (check_selector body) = (t1, r1)"
        by (cases "page_stage getError env g0 u (wait_after_load_of body)
          (timeout_of body) (headers body) (check_selector body)")
      from assms Some False er nr ps obtain out where r1: "r1 = Inr out" "out = Responded code b"
        by (cases r1) (auto simp: scrape_def)
      from page_stage_responds [OF ps [unfolded r1(1)]] r1(2) valid Some show ?thesis by simp
    qed
  qed
qed

lemma page_error_spec_iff: "page_error getError_spec st = None \<longleftrightarrow> st = Some 200"
  by (auto simp: page_error_def getError_spec_def split: option.splits)

lemma scrape_completed_fetch:
  assumes "reaches_fetch URL B env g body" and "url body = Some u"
      and "fetch_result (page_outcomes env) u (wait_after_load_of body) (timeout_of body)
             (check_selector body) = Some r"
  shows "\<exists>t g'. scrape URL getError B env g body = (t, g', success_response getError r)"
proof -
  from assms(1) obtain u' t0 g' c where h: "url body = Some u'" "u' \<noteq> []" "isValidUrl URL u'"
    "ensure_ready B env g = (t0, g')" "browserInitialized g'" "context g' = Some c"
    "newPage env = Inr ()" "headers body = None \<or> setExtraHTTPHeaders env = Inr ()"
    by (rule reaches_fetchD)
  with assms(2) have u: "u' = u" by simp
  obtain ts where st: "strategies (page_outcomes env) u (wait_after_load_of body)
      (timeout_of body) (check_selector body) = (ts, Inr (Inr r))"
    using strategies_fetch_result [of "page_outcomes env" u "wait_after_load_of body"
        "timeout_of body" "check_selector body"] assms(3) by auto
  from scrape_served [OF h(1-3) h(4-8), of ts "Inr r" getError] st u show ?thesis by simp
qed

lemma scrape_invalid:
  assumes "\<not> request_valid URL body"
  shows "\<exists>b. scrape URL getError B env g body = ([], g, Responded 400 b)"
  using assms
  by (auto simp: scrape_def request_valid_def split: option.splits)

lemma scrape_navigates_first:
  assumes "reaches_fetch URL B env g body" and "url body = Some u"
  shows "\<exists>t g' out rest. scrape URL getError B env g body = (t, g', out) \<and>
           navigations t = (u, load, timeout_of body) # rest"
proof -
  obtain t1 r1 where f: "scrapePage (page_outcomes env) u load (wait_after_load_of body)
      (timeout_of body) (check_selector body) = (t1, r1)"
    by (cases "scrapePage (page_outcomes env) u load (wait_after_load_of body)
      (timeout_of body) (check_selector body)")
  obtain t2 r2 where s: "scrapePage (page_outcomes env) u networkidle (wait_after_load_of body)
      (timeout_of body) (check_selector body) = (t2, r2)"
    by (cases "scrapePage (page_outcomes env) u networkidle (wait_after_load_of body)
      (timeout_of body) (check_selector body)")
  from scrape_two_strategies [OF assms f s, of getError] show ?thesis by blast
qed

lemma initializeBrowser_page_closes [simp]:
  "page_closes (fst (initializeBrowser B e g)) = 0"
  by (simp add: initializeBrowser_def failure_log_def Let_def split: sum.splits)

lemma ensure_ready_page_closes:
  "ensure_ready B env g = (t0, g') \<Longrightarrow> page_closes t0 = 0"
  by (auto simp: ensure_ready_def split: if_splits dest: arg_cong [where f = "\<lambda>p. page_closes (fst p)"])

lemma set_headers_page_closes [simp]: "page_closes (set_headers_trace hs) = 0"
  by (simp add: set_headers_trace_def split: option.splits)

lemma strategies_page_closes:
  assumes "strategies p u wal tmo sel = (ts, Inr s)"
  shows "page_closes ts = (case s of Inl early \<Rightarrow> 1 | Inr r \<Rightarrow> 0)"
proof -
  have a: "page_closes (fst (scrapePage p u load wal tmo sel)) = 0"
    and b: "page_closes (fst (scrapePage p u networkidle wal tmo sel)) = 0"
    by (rule scrapePage_page_closes)+
  from assms a b show ?thesis
    by (auto simp: strategies_cases split: prod.splits sum.splits)
qed

lemma page_closed_when_fetch_reached:
  assumes "reaches_fetch URL B env g body"
      and "scrape URL getError B env g body = (t, g', out)"
  shows "page_closes t = 1"
proof -
  from assms(1) obtain u t0 g0 c where h: "url body = Some u" "u \<noteq> []" "isValidUrl URL u"
    "ensure_ready B env g = (t0, g0)" "browserInitialized g0" "context g0 = Some c"
    "newPage env = Inr ()" "headers body = None \<or> setExtraHTTPHeaders env = Inr ()"
    by (rule reaches_fetchD)
  obtain ts s where st: "strategies (page_outcomes env) u (wait_after_load_of body)
      (timeout_of body) (check_selector body) = (ts, Inr s)"
    using strategies_total by blast
  from scrape_served [OF h st, of getError] assms(2)
  have t: "t = t0 @ [NewPage] @ set_headers_trace (headers body) @ ts @
              (case s of Inl early \<Rightarrow> [] | Inr r \<Rightarrow> [PageClose])" by simp
  from ensure_ready_page_closes [OF h(4)] strategies_page_closes [OF st] t
  show ?thesis by (cases s) simp_all
qed

subsection \<open>Routes\<close>

lemma installed_routes_append [simp]:
  "installed_routes (a @ b) = installed_routes a @ installed_routes b"
  by (induction a rule: installed_routes.induct) simp_all

lemma initializeBrowser_routes:
  assumes "initializeBrowser B e g = (t, g')" and "\<not> initializationInProgress g"
      and "browserInitialized g'"
  shows "installed_routes t = (if B then [(MediaGlob, AbortRoute)] else []) @ [(AllGlob, AdFilter)]"
  using assms
  by (auto simp: initializeBrowser_def init_failed_def failure_log_def Let_def
        split: sum.splits if_splits)

lemma dispatch_installed:
  "dispatch URL ((if B then [(MediaGlob, AbortRoute)] else []) @ [(AllGlob, AdFilter)]) u =
     run_route_handler URL AdFilter u"
  by (simp add: dispatch_def)

lemma dispatch_in_registration_order_installed:
  "dispatch_in_registration_order URL
     ((if B then [(MediaGlob, AbortRoute)] else []) @ [(AllGlob, AdFilter)]) u =
     (if B \<and> glob_matches MediaGlob u then Abort else run_route_handler URL AdFilter u)"
  by (simp add: dispatch_in_registration_order_def)

lemma ad_filter_substring:
  assumes "URL u = Inr parsed"
  shows "run_route_handler URL AdFilter u = Abort \<longleftrightarrow>
           (\<exists>domain \<in> set AD_SERVING_DOMAINS. sublist domain (hostname parsed))"
    and "run_route_handler URL AdFilter u = Continue \<longleftrightarrow>
           \<not> (\<exists>domain \<in> set AD_SERVING_DOMAINS. sublist domain (hostname parsed))"
  using assms by (simp_all add: list_ex_iff str_includes_sublist)

subsection \<open>Shutdown\<close>

lemma shutdownBrowser_cases:
  "shutdownBrowser env g =
     (case context g of
        None \<Rightarrow> (case browser g of
                   None \<Rightarrow> ([], Inr ())
                 | Some b \<Rightarrow> ([BrowserClose], browser_close env))
      | Some c \<Rightarrow>
          (case context_close env of
             Inl e \<Rightarrow> ([ContextClose], Inl e)
           | Inr _ \<Rightarrow>
               (case browser g of
                  None \<Rightarrow> ([ContextClose], Inr ())
                | Some b \<Rightarrow> ([ContextClose, BrowserClose], browser_close env))))"
  by (simp add: shutdownBrowser_def call_def io_return_def split: option.splits sum.splits)

subsection \<open>The single-flight invariant\<close>

lemma inv_initial: "single_flight_inv initial_system"
  by (simp add: single_flight_inv_def initial_system_def initial_globals_def)

lemma inv_call: "single_flight_inv s \<Longrightarrow> single_flight_inv (call_initializeBrowser s)"
  by (auto simp: single_flight_inv_def call_initializeBrowser_def)

lemma inv_probe: "single_flight_inv s \<Longrightarrow> single_flight_inv (snd (readiness s))"
  by (auto simp: readiness_def inv_call split: option.splits)

lemma resume_in_progress:
  "resume B pc r g = (t, next_pc, g') \<Longrightarrow> initializationInProgress g \<Longrightarrow>
     initializationInProgress g' \<longleftrightarrow> next_pc \<noteq> None"
  by (cases pc; cases r) (auto simp: init_failed_def split: if_splits)

lemma inv_settle:
  assumes "single_flight_inv s" and "fire B (Settle i r) s = Some s'"
  shows "single_flight_inv s'"
proof -
  from assms(2) have i: "i < length (tasks s)" by (simp split: if_splits)
  with assms(1) obtain pc where ts: "tasks s = [pc]" and i0: "i = 0"
    and ip: "initializationInProgress (vars s)"
    by (cases "tasks s") (auto simp: single_flight_inv_def)
  obtain t next_pc g' where res: "resume B pc r (vars s) = (t, next_pc, g')"
    by (cases "resume B pc r (vars s)")
  from resume_in_progress [OF res ip] assms(2) ts i0 res show ?thesis
    by (cases next_pc) (auto simp: single_flight_inv_def)
qed

lemma inv_fire:
  "single_flight_inv s \<Longrightarrow> fire B e s = Some s' \<Longrightarrow> single_flight_inv s'"
  by (cases e) (auto simp: inv_call inv_probe dest: inv_settle)

lemma inv_run:
  "run B evs s = Some s' \<Longrightarrow> single_flight_inv s \<Longrightarrow> single_flight_inv s'"
proof (induction evs arbitrary: s)
  case Nil
  then show ?case by simp
next
  case (Cons e evs)
  then show ?case by (auto split: option.splits dest: inv_fire)
qed

lemma launches_append [simp]: "launches (a @ b) = launches a + launches b"
  by (simp add: launches_def)

lemma launches_simps [simp]:
  "launches [] = 0"
  "launches (e # t) = (if e = Launch then 1 else 0) + launches t"
  by (simp_all add: launches_def)

lemma calls_while_in_progress:
  assumes "initializationInProgress (vars s)"
  shows "\<exists>s'. run B (replicate n CallInitialize) s = Some s' \<and> vars s' = vars s \<and>
           tasks s' = tasks s \<and> launches (journal s') = launches (journal s)"
  using assms
proof (induction n arbitrary: s)
  case 0
  then show ?case by simp
next
  case (Suc n)
  let ?s1 = "call_initializeBrowser s"
  from Suc.prems have s1: "vars ?s1 = vars s" "tasks ?s1 = tasks s"
    "launches (journal ?s1) = launches (journal s)"
    by (simp_all add: call_initializeBrowser_def)
  with Suc.prems have "initializationInProgress (vars ?s1)" by simp
  from Suc.IH [OF this] s1 show ?case by simp
qed

lemma calls_when_idle:
  assumes "\<not> initializationInProgress (vars s)" and "tasks s = []"
  shows "\<exists>s'. run B (replicate (Suc n) CallInitialize) s = Some s' \<and>
           tasks s' = [AwaitLaunch] \<and> launches (journal s') = Suc (launches (journal s))"
proof -
  let ?s1 = "call_initializeBrowser s"
  from assms have s1: "initializationInProgress (vars ?s1)" "tasks ?s1 = [AwaitLaunch]"
    "launches (journal ?s1) = Suc (launches (journal s))"
    by (simp_all add: call_initializeBrowser_def)
  from calls_while_in_progress [OF s1(1), of B n] s1 show ?thesis by auto
qed

subsection \<open>Calls of initializeBrowser within a request\<close>

lemma initialize_calls_append [simp]:
  "initialize_calls (a @ b) = initialize_calls a + initialize_calls b"
  by (simp add: initialize_calls_def)

lemma initialize_calls_simps [simp]:
  "initialize_calls [] = 0"
  "initialize_calls (e # t) =
     (if e = Console ''Initializing browser...'' \<or>
         e = Console ''Browser initialization already in progress, skipping...''
      then 1 else 0) + initialize_calls t"
  by (simp_all add: initialize_calls_def)

lemma initializeBrowser_calls [simp]:
  "initialize_calls (fst (initializeBrowser B e g)) = 1"
  by (simp add: initializeBrowser_def failure_log_def Let_def split: sum.splits)

lemma blocks_no_calls [simp]:
  "initialize_calls (fst (pause_after_load p w wal)) = 0"
  "initialize_calls (fst (require_selector p w tmo sel)) = 0"
  "initialize_calls (fst (extract_content p w response)) = 0"
  by (simp_all add: pause_after_load_def require_selector_def extract_content_def call_def
        io_return_def io_throw_def fst_io_catch fst_io_bind split: option.splits sum.splits)

lemma scrapePage_no_calls [simp]:
  "initialize_calls (fst (scrapePage p u w wal tmo sel)) = 0"
  by (simp add: scrapePage_blocks fst_io_bind call_def io_return_def
        split: sum.splits prod.splits)

lemma strategies_no_calls [simp]:
  "initialize_calls (fst (strategies p u wal tmo sel)) = 0"
proof -
  obtain t1 r1 where f: "scrapePage p u load wal tmo sel = (t1, r1)"
    by (cases "scrapePage p u load wal tmo sel")
  obtain t2 r2 where s: "scrapePage p u networkidle wal tmo sel = (t2, r2)"
    by (cases "scrapePage p u networkidle wal tmo sel")
  have "initialize_calls t1 = 0" "initialize_calls t2 = 0"
    using scrapePage_no_calls [of p u load wal tmo sel]
      scrapePage_no_calls [of p u networkidle wal tmo sel] f s by simp_all
  then show ?thesis
    by (simp add: strategies_cases f s split: sum.splits)
qed

lemma page_stage_no_calls [simp]:
  "initialize_calls (fst (page_stage getError env g u wal tmo hs sel)) = 0"
  by (simp add: page_stage_def fst_io_bind call_def io_return_def io_throw_def respond_eq
        split: option.splits sum.splits)

lemma scrape_initialize_calls:
  assumes "scrape URL getError B env g body = (t, g', out)"
  shows "initialize_calls t = (if request_valid URL body \<and> not_ready g then 1 else 0)"
proof (cases "request_valid URL body")
  case False
  from scrape_invalid [OF False, of getError B env g] assms False show ?thesis by auto
next
  case True
  then obtain u where u: "url body = Some u" "u \<noteq> []" "isValidUrl URL u"
    by (auto simp: request_valid_def split: option.splits)
  obtain t0 g0 where er: "ensure_ready B env g = (t0, g0)" by (cases "ensure_ready B env g")
  have c0: "initialize_calls t0 = (if not_ready g then 1 else 0)"
    using er
    by (auto simp: ensure_ready_def split: if_splits
          dest: arg_cong [where f = "\<lambda>p. initialize_calls (fst p)"])
  obtain t1 r1 where ps: "page_stage getError env g0 u (wait_after_load_of body)
      (timeout_of body) (headers body) (check_selector body) = (t1, r1)"
    by (cases "page_stage getError env g0 u (wait_after_load_of body)
      (timeout_of body) (headers body) (check_selector body)")
  have c1: "initialize_calls t1 = 0"
    using page_stage_no_calls [of getError env g0 u "wait_after_load_of body"
        "timeout_of body" "headers body" "check_selector body"] ps by simp
  from assms u er ps have "t = t0 \<or> t = t0 @ t1"
    by (auto simp: scrape_def split: if_splits sum.splits)
  with c0 c1 True show ?thesis by auto
qed

lemma scrape_not_initialized:
  assumes "request_valid URL body" and "not_ready g"
      and "scrape URL getError B env g body = (t, g', out)" and "\<not> browserInitialized g'"
  shows "out = Responded 500
                 (InitErrorBody ''Browser initialization failed'' (init_error_details g'))"
proof -
  from assms(1) obtain u where u: "url body = Some u" "u \<noteq> []" "isValidUrl URL u"
    by (auto simp: request_valid_def split: option.splits)
  obtain t0 g0 where er: "ensure_ready B env g = (t0, g0)" by (cases "ensure_ready B env g")
  from assms(2-4) u er show ?thesis
    by (auto simp: scrape_def split: if_splits sum.splits prod.splits)
qed

section \<open>The claims\<close>

text \<open>
  C1. A request that reaches the fetch navigates first with wait condition \<open>load\<close> and the
  request's timeout. If that attempt succeeds its result is returned and there is no other
  navigation. If it fails (as it does on any navigation error), exactly one more navigation
  is made, with \<open>networkidle\<close> and the same timeout: the response is built from the result
  of that second attempt if it succeeds, and is the 500 fetch-failed response otherwise.
\<close>

theorem navigation_fallback:
  assumes "reaches_fetch URL B env g body" and "url body = Some u"
      and "scrapePage (page_outcomes env) u load (wait_after_load_of body) (timeout_of body)
             (check_selector body) = (t1, r1)"
      and "scrapePage (page_outcomes env) u networkidle (wait_after_load_of body) (timeout_of body)
             (check_selector body) = (t2, r2)"
  shows "\<exists>t g'. scrape URL getError B env g body =
            (t, g',
             (case r1 of
                Inr r \<Rightarrow> success_response getError r
              | Inl e1 \<Rightarrow>
                  (case r2 of
                     Inr r \<Rightarrow> success_response getError r
                   | Inl e2 \<Rightarrow> fetch_failed_response))) \<and>
          navigations t =
            (u, load, timeout_of body) #
            (case r1 of Inr r \<Rightarrow> [] | Inl e1 \<Rightarrow> [(u, networkidle, timeout_of body)]) \<and>
          (\<forall>e. goto (page_outcomes env load) = Inl e \<longrightarrow> r1 = Inl e)"
  using assms by (rule scrape_two_strategies)

theorem navigation_fallback_witness:
  "reaches_fetch sample_URL False (sample_env slow_page) ready_globals
     (sample_request ''https://example.com/'') \<and>
   goto (slow_page load) = Inl ''Timeout 15000ms exceeded'' \<and>
   (\<exists>t g'. scrape sample_URL getError_spec False (sample_env slow_page) ready_globals
              (sample_request ''https://example.com/'') =
              (t, g', Responded 200 (ScrapeBody ''hello'' (Some 200) None)) \<and>
            navigations t = [(''https://example.com/'', load, 15000),
                             (''https://example.com/'', networkidle, 15000)])"
proof -
  let ?body = "sample_request ''https://example.com/''"
  let ?env = "sample_env slow_page"
  have reach: "reaches_fetch sample_URL False ?env ready_globals ?body"
    by code_simp
  have u: "url ?body = Some ''https://example.com/''"
    by (simp add: sample_request_def)
  have first: "scrapePage (page_outcomes ?env) ''https://example.com/'' load
      (wait_after_load_of ?body) (timeout_of ?body) (check_selector ?body) =
      ([Goto ''https://example.com/'' load 15000], Inl ''Timeout 15000ms exceeded'')"
    by code_simp
  have second: "scrapePage (page_outcomes ?env) ''https://example.com/'' networkidle
      (wait_after_load_of ?body) (timeout_of ?body) (check_selector ?body) =
      ([Goto ''https://example.com/'' networkidle 15000, Content, AllHeaders, Body],
       Inr \<lparr> result_content = ''hello'', result_status = Some 200,
            result_headers = Some [(''date'', ''Tue, 03 Nov 2026 10:00:00 GMT''),
                                   (''content-type'', ''text/plain; charset=utf-8'')] \<rparr>)"
    by code_simp
  have tmo: "timeout_of ?body = 15000"
    by (simp add: timeout_of_def sample_request_def)
  have g: "goto (slow_page load) = Inl ''Timeout 15000ms exceeded''"
    by (simp add: slow_page_def)
  from navigation_fallback [OF reach u first second, of getError_spec] reach g tmo
  show ?thesis
    by (auto simp add: success_response_def page_error_def)
qed

text \<open>
  C2 (as amended). Let a request that reaches the fetch require a non-empty selector, let
  its navigation under \<open>load\<close> succeed and the pause, if any, pass, and let the wait for the
  selector fail. Then the first attempt makes the selector wait after the pause and fails
  with \<^verbatim>\<open>Required selector not found\<close>, and the handler treats this failure like any other
  failure of the first attempt: it navigates once more, under \<open>networkidle\<close>, and responds
  with the result of that attempt if it succeeds and with the 500 fetch-failed response
  otherwise.
\<close>

theorem selector_failure_falls_back:
  assumes "reaches_fetch URL B env g body" and "url body = Some u"
      and "check_selector body = Some sel" and "sel \<noteq> []"
      and "goto (page_outcomes env load) = Inr response"
      and "wait_after_load_of body \<le> 0 \<or> waitForTimeout (page_outcomes env load) = Inr ()"
      and "waitForSelector (page_outcomes env load) = Inl e"
      and "scrapePage (page_outcomes env) u networkidle (wait_after_load_of body) (timeout_of body)
             (check_selector body) = (t2, r2)"
  shows "scrapePage (page_outcomes env) u load (wait_after_load_of body) (timeout_of body)
             (check_selector body) =
           ([Goto u load (timeout_of body)] @
              (if 0 < wait_after_load_of body then [WaitForTimeout (wait_after_load_of body)]
               else []) @
              [WaitForSelector sel (timeout_of body)],
            Inl ''Required selector not found'') \<and>
         (\<exists>t g'. scrape URL getError B env g body =
            (t, g',
             (case r2 of
                Inr r \<Rightarrow> success_response getError r
              | Inl e2 \<Rightarrow> fetch_failed_response)) \<and>
            navigations t = [(u, load, timeout_of body), (u, networkidle, timeout_of body)])"
proof -
  have first: "scrapePage (page_outcomes env) u load (wait_after_load_of body) (timeout_of body)
             (check_selector body) =
           ([Goto u load (timeout_of body)] @
              (if 0 < wait_after_load_of body then [WaitForTimeout (wait_after_load_of body)]
               else []) @
              [WaitForSelector sel (timeout_of body)],
            Inl ''Required selector not found'')"
    using scrapePage_selector_missing [where p = "page_outcomes env" and w = load, OF assms(4,5,6,7)]
      assms(3) by simp
  from scrape_two_strategies [OF assms(1,2) first assms(8), of getError] first
  show ?thesis by auto
qed

theorem selector_failure_falls_back_witness:
  "reaches_fetch sample_URL False (sample_env late_selector_page) ready_globals selector_request \<and>
   goto (late_selector_page load) = Inr (Some html_response) \<and>
   waitForSelector (late_selector_page load) = Inl ''Timeout 15000ms exceeded'' \<and>
   scrapePage late_selector_page ''https://example.com/'' load 500 15000 (Some ''#missing'') =
     ([Goto ''https://example.com/'' load 15000, WaitForTimeout 500,
       WaitForSelector ''#missing'' 15000],
      Inl ''Required selector not found'') \<and>
   (\<exists>t g'. scrape sample_URL getError_spec False (sample_env late_selector_page) ready_globals
              selector_request =
              (t, g',
               Responded 200
                 (ScrapeBody ''<html><head></head><body><p>text</p></body></html>'' (Some 200)
                    None)) \<and>
            navigations t = [(''https://example.com/'', load, 15000),
                             (''https://example.com/'', networkidle, 15000)])"
proof -
  let ?env = "sample_env late_selector_page"
  have reach: "reaches_fetch sample_URL False ?env ready_globals selector_request"
    by code_simp
  have u: "url selector_request = Some ''https://example.com/''"
    by (simp add: selector_request_def)
  have sel: "check_selector selector_request = Some ''#missing''"
    by (simp add: selector_request_def)
  have ne: "''#missing'' \<noteq> []" by simp
  have nav: "goto (page_outcomes ?env load) = Inr (Some html_response)"
    by (simp add: sample_env_def late_selector_page_def missing_selector_page_def)
  have pause: "wait_after_load_of selector_request \<le> 0 \<or>
      waitForTimeout (page_outcomes ?env load) = Inr ()"
    by (simp add: sample_env_def late_selector_page_def missing_selector_page_def)
  have miss: "waitForSelector (page_outcomes ?env load) = Inl ''Timeout 15000ms exceeded''"
    by (simp add: sample_env_def late_selector_page_def missing_selector_page_def)
  have second: "scrapePage (page_outcomes ?env) ''https://example.com/'' networkidle
      (wait_after_load_of selector_request) (timeout_of selector_request)
      (check_selector selector_request) =
      ([Goto ''https://example.com/'' networkidle 15000, WaitForTimeout 500,
        WaitForSelector ''#missing'' 15000, Content, AllHeaders],
       Inr \<lparr> result_content = ''<html><head></head><body><p>text</p></body></html>'',
            result_status = Some 200,
            result_headers = Some [(''content-type'', ''text/html; charset=utf-8'')] \<rparr>)"
    by code_simp
  have vals: "wait_after_load_of selector_request = 500" "timeout_of selector_request = 15000"
    "page_outcomes ?env = late_selector_page"
    by (simp_all add: wait_after_load_of_def timeout_of_def selector_request_def sample_env_def)
  from selector_failure_falls_back [OF reach u sel ne nav pause miss second, of getError_spec]
    reach nav miss sel vals
  show ?thesis
    by (auto simp add: success_response_def page_error_def)
qed

text \<open>
  The claim as stated fails: with the selector missing under both wait conditions, the
  failed selector wait of the first attempt is followed by a second navigation.
\<close>

theorem selector_failure_second_navigation:
  "check_selector selector_request = Some ''#missing'' \<and>
   goto (missing_selector_page load) = Inr (Some html_response) \<and>
   waitForSelector (missing_selector_page load) = Inl ''Timeout 15000ms exceeded'' \<and>
   waitForSelector (missing_selector_page networkidle) = Inl ''Timeout 15000ms exceeded'' \<and>
   scrape sample_URL getError_spec False (sample_env missing_selector_page) ready_globals
     selector_request =
     ([NewPage,
       Goto ''https://example.com/'' load 15000, WaitForTimeout 500,
       WaitForSelector ''#missing'' 15000,
       Goto ''https://example.com/'' networkidle 15000, WaitForTimeout 500,
       WaitForSelector ''#missing'' 15000,
       PageClose],
      ready_globals,
      Responded 500 (ErrorBody ''An error occurred while fetching the page.''))"
  by code_simp

text \<open>
  C3. In every state that calls of \<^verbatim>\<open>initializeBrowser\<close>, readiness probes and settling engine
  calls can lead to, at most one invocation is suspended and at most one launch is in
  progress. While an initialization is in progress a call only logs that it skips: it
  changes no variable, suspends nothing and launches nothing, and so do any number of
  further calls. When none is in progress, any number of calls made before the launch
  settles leave exactly one suspended invocation and add exactly one launch.
\<close>

theorem single_flight:
  assumes "run B evs initial_system = Some s"
  shows "launches_in_progress s \<le> 1 \<and> length (tasks s) \<le> 1 \<and>
         (initializationInProgress (vars s) \<longrightarrow>
            fire B CallInitialize s =
              Some (s\<lparr> journal := journal s @
                       [Console ''Browser initialization already in progress, skipping...''] \<rparr>) \<and>
            (\<forall>n. \<exists>s'. run B (replicate n CallInitialize) s = Some s' \<and> vars s' = vars s \<and>
                   tasks s' = tasks s \<and> launches (journal s') = launches (journal s))) \<and>
         (\<not> initializationInProgress (vars s) \<longrightarrow>
            (\<forall>n. \<exists>s'. run B (replicate (Suc n) CallInitialize) s = Some s' \<and>
                   tasks s' = [AwaitLaunch] \<and>
                   launches (journal s') = Suc (launches (journal s))))"
proof -
  from inv_run [OF assms inv_initial] have inv: "single_flight_inv s" .
  then have len: "length (tasks s) \<le> 1" by (simp add: single_flight_inv_def)
  have "launches_in_progress s \<le> length (tasks s)"
    by (simp add: launches_in_progress_def)
  with len have lip: "launches_in_progress s \<le> 1" by simp
  have idle: "\<not> initializationInProgress (vars s) \<Longrightarrow> tasks s = []"
    using inv by (simp add: single_flight_inv_def)
  show ?thesis
    using lip len calls_while_in_progress [of s B] calls_when_idle [of s B] idle
    by (auto simp: call_initializeBrowser_def)
qed

theorem single_flight_witness:
  "run False concurrent_calls initial_system = Some launching_system \<and>
   launches_in_progress launching_system \<le> 1 \<and>
   launches (journal launching_system) = 1 \<and>
   (\<forall>n. \<exists>s'. run False (replicate n CallInitialize) launching_system = Some s' \<and>
          tasks s' = [AwaitLaunch] \<and> launches (journal s') = 1)"
proof -
  have r: "run False concurrent_calls initial_system = Some launching_system"
    by code_simp
  have ip: "initializationInProgress (vars launching_system)"
    by (simp add: launching_system_def)
  have l: "launches (journal launching_system) = 1" "tasks launching_system = [AwaitLaunch]"
    by (simp_all add: launching_system_def)
  from single_flight [OF r] ip
  have a: "launches_in_progress launching_system \<le> 1"
    and b: "\<forall>n. \<exists>s'. run False (replicate n CallInitialize) launching_system = Some s' \<and>
          vars s' = vars launching_system \<and> tasks s' = tasks launching_system \<and>
          launches (journal s') = launches (journal launching_system)"
    by blast+
  from b l have "\<forall>n. \<exists>s'. run False (replicate n CallInitialize) launching_system = Some s' \<and>
          tasks s' = [AwaitLaunch] \<and> launches (journal s') = 1"
    by metis
  with r a l show ?thesis by blast
qed

text \<open>
  C4. The claim asks that an acquired page be closed on every exit path. On the paths that
  reach the fetch the page is closed exactly once (\<open>page_closed_when_fetch_reached\<close>). When
  \<^verbatim>\<open>page.setExtraHTTPHeaders\<close> rejects, the exception leaves the handler before the
  \<^verbatim>\<open>try\<close> block: the page was acquired, no \<^verbatim>\<open>page.close()\<close> is made and no response is sent.
\<close>

theorem page_leak_on_header_failure:
  "scrape sample_URL getError_spec False rejecting_headers_env ready_globals headers_request =
     ([NewPage, SetExtraHTTPHeaders [(''X-Test'', ''1'')]],
      ready_globals,
      Rejected ''page.setExtraHTTPHeaders: Target page has been closed'') \<and>
   page_closes [NewPage, SetExtraHTTPHeaders [(''X-Test'', ''1'')]] = 0"
  by code_simp

text \<open>
  C5. The claim asks that, with media blocking enabled, a request for a media file be
  aborted. The initialization registers the media route first and the catch-all route
  second; the engine consults the catch-all route first, and its callback settles every
  request: it aborts a request whose hostname contains a listed domain and continues every
  other one (\<open>dispatch_installed\<close>, \<open>ad_filter_substring\<close>). The media route never runs: with
  media blocking enabled, a request for a \<^verbatim>\<open>.png\<close> file on an unlisted host continues. Read in
  registration order the two routes would decide as the claim says
  (\<open>dispatch_in_registration_order_installed\<close>).
\<close>

theorem media_route_shadowed:
  "installed_routes (fst (initializeBrowser True ok_init initial_globals)) =
     [(MediaGlob, AbortRoute), (AllGlob, AdFilter)] \<and>
   glob_matches MediaGlob ''https://example.com/logo.png'' \<and>
   dispatch sample_URL (installed_routes (fst (initializeBrowser True ok_init initial_globals)))
     ''https://example.com/logo.png'' = Continue \<and>
   dispatch sample_URL (installed_routes (fst (initializeBrowser True ok_init initial_globals)))
     ''https://stats.g.doubleclick.net/collect'' = Abort \<and>
   dispatch sample_URL (installed_routes (fst (initializeBrowser True ok_init initial_globals)))
     ''https://example.com/'' = Continue"
  by code_simp




text \<open>
  C7. When one of the two attempts completes, the handler answers 200 with the content and
  the status of the target, whatever that status is, and the \<open>pageError\<close> of the body is the
  non-empty message that \<open>getError\<close> gives for a status other than 200; with the classifier
  of the specification it is present exactly when the status is not 200. A response with
  another code is a 400 for a request that fails validation, the 500 of a session that is
  not initialized, or the 500 sent when both attempts failed.
\<close>

theorem page_status_is_advisory:
  "(\<forall>u r. reaches_fetch URL B env g body \<and> url body = Some u \<and>
          fetch_result (page_outcomes env) u (wait_after_load_of body) (timeout_of body)
            (check_selector body) = Some r \<longrightarrow>
          (\<exists>t g'. scrape URL getError B env g body =
                     (t, g',
                      Responded 200
                        (ScrapeBody (result_content r) (result_status r)
                           (page_error getError (result_status r))))) \<and>
          (page_error getError_spec (result_status r) = None \<longleftrightarrow> result_status r = Some 200)) \<and>
   (\<forall>t g' code b. scrape URL getError B env g body = (t, g', Responded code b) \<and> code \<noteq> 200 \<longrightarrow>
          (code = 400 \<and> \<not> request_valid URL body) \<or>
          (code = 500 \<and> \<not> browserInitialized g' \<and>
             b = InitErrorBody ''Browser initialization failed'' (init_error_details g')) \<or>
          (code = 500 \<and> b = ErrorBody ''An error occurred while fetching the page.'' \<and>
             (\<exists>u. url body = Some u \<and>
                  fetch_result (page_outcomes env) u (wait_after_load_of body) (timeout_of body)
                    (check_selector body) = None)))"
proof (intro conjI allI impI)
  fix u r
  assume a: "reaches_fetch URL B env g body \<and> url body = Some u \<and>
          fetch_result (page_outcomes env) u (wait_after_load_of body) (timeout_of body)
            (check_selector body) = Some r"
  then show "\<exists>t g'. scrape URL getError B env g body =
                     (t, g',
                      Responded 200
                        (ScrapeBody (result_content r) (result_status r)
                           (page_error getError (result_status r))))"
    using scrape_completed_fetch [of URL B env g body u r getError]
    by (simp add: success_response_def)
  show "page_error getError_spec (result_status r) = None \<longleftrightarrow> result_status r = Some 200"
    by (rule page_error_spec_iff)
next
  fix t g' code b
  assume a: "scrape URL getError B env g body = (t, g', Responded code b) \<and> code \<noteq> 200"
  then have run: "scrape URL getError B env g body = (t, g', Responded code b)"
    and code: "code \<noteq> 200" by simp_all
  from scrape_responses [OF run] code
  show "(code = 400 \<and> \<not> request_valid URL body) \<or>
          (code = 500 \<and> \<not> browserInitialized g' \<and>
             b = InitErrorBody ''Browser initialization failed'' (init_error_details g')) \<or>
          (code = 500 \<and> b = ErrorBody ''An error occurred while fetching the page.'' \<and>
             (\<exists>u. url body = Some u \<and>
                  fetch_result (page_outcomes env) u (wait_after_load_of body) (timeout_of body)
                    (check_selector body) = None))"
    by (auto simp: success_response_def fetch_failed_response_def split: option.splits)
qed

theorem page_status_is_advisory_witness:
  "reaches_fetch sample_URL False (sample_env not_found_page) ready_globals
     (sample_request ''https://example.com/'') \<and>
   (\<exists>t g'. scrape sample_URL getError_spec False (sample_env not_found_page) ready_globals
              (sample_request ''https://example.com/'') =
              (t, g',
               Responded 200
                 (ScrapeBody ''<html><head></head><body><h1>Not Found</h1></body></html>''
                    (Some 404) (Some ''client-error''))))"
proof -
  let ?body = "sample_request ''https://example.com/''"
  let ?env = "sample_env not_found_page"
  let ?r = "\<lparr> result_content = ''<html><head></head><body><h1>Not Found</h1></body></html>'',
              result_status = Some 404,
              result_headers = Some [(''content-type'', ''text/html'')] \<rparr>"
  have reach: "reaches_fetch sample_URL False ?env ready_globals ?body"
    by code_simp
  have u: "url ?body = Some ''https://example.com/''"
    by (simp add: sample_request_def)
  have fr: "fetch_result (page_outcomes ?env) ''https://example.com/'' (wait_after_load_of ?body)
      (timeout_of ?body) (check_selector ?body) = Some ?r"
    by code_simp
  have pe: "page_error getError_spec (Some 404) = Some ''client-error''"
    by (simp add: page_error_def getError_spec_def)
  from page_status_is_advisory [of sample_URL False ?env ready_globals ?body getError_spec]
    reach u fr
  have "\<exists>t g'. scrape sample_URL getError_spec False ?env ready_globals ?body =
          (t, g', Responded 200 (ScrapeBody (result_content ?r) (result_status ?r)
             (page_error getError_spec (result_status ?r))))"
    by blast
  with reach pe show ?thesis by simp
qed

text \<open>
  C8 (as amended). A readiness probe starts an initialization only when the session is not
  initialized, no error is recorded and no initialization is in progress: it answers 503
  \<^verbatim>\<open>Browser initialization started\<close> while the invocation it started is suspended at the
  launch. In every other state the probe changes nothing: it answers 200 when the session
  is initialized, 503 \<^verbatim>\<open>Browser initialization in progress\<close> when one is in progress and no
  error is recorded, and 503 with the recorded error when there is one. A scrape request
  calls \<^verbatim>\<open>initializeBrowser\<close> exactly once when it is valid and the session is not ready, and
  never otherwise; if the session is still not initialized after that call it answers 500
  with the recorded message (\<^verbatim>\<open>Unknown error\<close> when there is none).
\<close>

theorem reinitialization_triggers:
  "(browserInitialized (vars s) \<longrightarrow> readiness s = ((200, Ready), s)) \<and>
   (\<not> browserInitialized (vars s) \<and> browserInitError (vars s) = None \<and>
      initializationInProgress (vars s) \<longrightarrow>
      readiness s = ((503, NotReadyMessage ''Browser initialization in progress''), s)) \<and>
   (\<not> browserInitialized (vars s) \<and> browserInitError (vars s) = None \<and>
      \<not> initializationInProgress (vars s) \<longrightarrow>
      readiness s =
        ((503, NotReadyMessage ''Browser initialization started''), call_initializeBrowser s) \<and>
      initializationInProgress (vars (call_initializeBrowser s)) \<and>
      tasks (call_initializeBrowser s) = tasks s @ [AwaitLaunch] \<and>
      journal (call_initializeBrowser s) =
        journal s @ [Console ''Initializing browser...'', Launch]) \<and>
   (\<forall>e. \<not> browserInitialized (vars s) \<and> browserInitError (vars s) = Some e \<longrightarrow>
      readiness s = ((503, NotReadyError e), s)) \<and>
   (\<forall>t g' out. scrape URL getError B env g body = (t, g', out) \<longrightarrow>
      initialize_calls t = (if request_valid URL body \<and> not_ready g then 1 else 0) \<and>
      (request_valid URL body \<and> not_ready g \<and> \<not> browserInitialized g' \<longrightarrow>
         out = Responded 500
                 (InitErrorBody ''Browser initialization failed'' (init_error_details g'))))"
proof (intro conjI allI impI)
  fix t g' out
  assume run: "scrape URL getError B env g body = (t, g', out)"
  then show "initialize_calls t = (if request_valid URL body \<and> not_ready g then 1 else 0)"
    by (rule scrape_initialize_calls)
  assume "request_valid URL body \<and> not_ready g \<and> \<not> browserInitialized g'"
  with run show "out = Responded 500
                 (InitErrorBody ''Browser initialization failed'' (init_error_details g'))"
    using scrape_not_initialized by blast
qed (auto simp: readiness_def call_initializeBrowser_def)

theorem reinitialization_triggers_witness:
  "readiness ready_system = ((200, Ready), ready_system) \<and>
   readiness launching_system =
     ((503, NotReadyMessage ''Browser initialization in progress''), launching_system) \<and>
   readiness initial_system =
     ((503, NotReadyMessage ''Browser initialization started''),
      call_initializeBrowser initial_system) \<and>
   tasks (call_initializeBrowser initial_system) = [AwaitLaunch] \<and>
   readiness failed_system =
     ((503, NotReadyError ''browserType.launch: Executable does not exist''), failed_system) \<and>
   scrape sample_URL getError_spec False failing_launch_env (vars failed_system)
     (sample_request ''https://example.com/'') =
     ([Console ''Initializing browser...'', Launch, failure_log],
      vars failed_system,
      Responded 500
        (InitErrorBody ''Browser initialization failed''
           ''browserType.launch: Executable does not exist'')) \<and>
   initialize_calls [Console ''Initializing browser...'', Launch, failure_log] = 1"
proof -
  let ?body = "sample_request ''https://example.com/''"
  let ?msg = "''browserType.launch: Executable does not exist''"
  have ready: "browserInitialized (vars ready_system)"
    by (simp add: ready_system_def ready_globals_def)
  have busy: "\<not> browserInitialized (vars launching_system) \<and>
      browserInitError (vars launching_system) = None \<and>
      initializationInProgress (vars launching_system)"
    by (simp add: launching_system_def)
  have idle: "\<not> browserInitialized (vars initial_system) \<and>
      browserInitError (vars initial_system) = None \<and>
      \<not> initializationInProgress (vars initial_system)"
    by (simp add: initial_system_def initial_globals_def)
  have failed: "\<not> browserInitialized (vars failed_system) \<and>
      browserInitError (vars failed_system) = Some ?msg"
    by (simp add: failed_system_def)
  have run: "scrape sample_URL getError_spec False failing_launch_env (vars failed_system) ?body =
     ([Console ''Initializing browser...'', Launch, failure_log], vars failed_system,
      Responded 500 (InitErrorBody ''Browser initialization failed'' ?msg))"
    by code_simp
  have pre: "request_valid sample_URL ?body" "not_ready (vars failed_system)"
    by code_simp+
  have t0: "tasks initial_system = []" by (simp add: initial_system_def)
  note r = reinitialization_triggers [of ready_system sample_URL getError_spec False
      failing_launch_env "vars failed_system" ?body]
  note l = reinitialization_triggers [of launching_system sample_URL getError_spec False
      failing_launch_env "vars failed_system" ?body]
  note a = reinitialization_triggers [of initial_system sample_URL getError_spec False
      failing_launch_env "vars failed_system" ?body]
  note b = reinitialization_triggers [of failed_system sample_URL getError_spec False
      failing_launch_env "vars failed_system" ?body]
  from conjunct1 [OF r] ready
  have 0: "readiness ready_system = ((200, Ready), ready_system)" by blast
  from conjunct1 [OF conjunct2 [OF l]] busy
  have 5: "readiness launching_system =
     ((503, NotReadyMessage ''Browser initialization in progress''), launching_system)" by blast
  from conjunct1 [OF conjunct2 [OF conjunct2 [OF a]]] idle t0
  have 1: "readiness initial_system =
     ((503, NotReadyMessage ''Browser initialization started''),
      call_initializeBrowser initial_system)"
    and 2: "tasks (call_initializeBrowser initial_system) = [AwaitLaunch]"
    by simp_all
  from conjunct1 [OF conjunct2 [OF conjunct2 [OF conjunct2 [OF b]]]] failed
  have 3: "readiness failed_system = ((503, NotReadyError ?msg), failed_system)"
    by blast
  from conjunct2 [OF conjunct2 [OF conjunct2 [OF conjunct2 [OF b]]]] run pre
  have 4: "initialize_calls [Console ''Initializing browser...'', Launch, failure_log] = 1"
    by simp
  from 0 1 2 3 4 5 run show ?thesis by blast
qed

text \<open>
  The claim as stated fails: after a failed launch the error is recorded, and readiness
  probes answer with it without starting another initialization.
\<close>

theorem probe_in_failed_state_does_not_reinitialize:
  "run True failed_launch initial_system = Some failed_system \<and>
   \<not> browserInitialized (vars failed_system) \<and>
   browserInitError (vars failed_system) =
     Some ''browserType.launch: Executable does not exist'' \<and>
   readiness failed_system =
     ((503, NotReadyError ''browserType.launch: Executable does not exist''), failed_system) \<and>
   run True [Probe, Probe, Probe] failed_system = Some failed_system \<and>
   initialize_calls (journal failed_system) = 1"
  by code_simp

text \<open>
  C9 (as amended). \<^verbatim>\<open>shutdownBrowser\<close> closes the context and then the browser, in sequence.
  If closing the context fails, the failure propagates and the browser is not closed. If
  closing the context succeeds, the browser is closed next and its outcome is the outcome
  of the shutdown. Whenever both close calls succeed the shutdown succeeds, whatever the
  variables hold, so a repeated call succeeds when the engine accepts the repeated closes.
\<close>

theorem shutdown_sequential:
  "(\<forall>c e. context g = Some c \<and> context_close env = Inl e \<longrightarrow>
       shutdownBrowser env g = ([ContextClose], Inl e)) \<and>
   (\<forall>c b. context g = Some c \<and> browser g = Some b \<and> context_close env = Inr () \<longrightarrow>
       shutdownBrowser env g = ([ContextClose, BrowserClose], browser_close env)) \<and>
   (context_close env = Inr () \<and> browser_close env = Inr () \<longrightarrow>
       snd (shutdownBrowser env g) = Inr ())"
  by (auto simp: shutdownBrowser_cases split: option.splits)

theorem shutdown_sequential_witness:
  "shutdownBrowser failing_context_close ready_globals =
     ([ContextClose], Inl ''browserContext.close: Connection closed'') \<and>
   shutdownBrowser ok_shutdown ready_globals = ([ContextClose, BrowserClose], Inr ()) \<and>
   snd (shutdownBrowser ok_shutdown ready_globals) = Inr ()"
proof -
  have c: "context ready_globals = Some 2" "browser ready_globals = Some 1"
    by (simp_all add: ready_globals_def)
  have f: "context_close failing_context_close = Inl ''browserContext.close: Connection closed''"
    by (simp add: failing_context_close_def)
  have ok: "context_close ok_shutdown = Inr ()" "browser_close ok_shutdown = Inr ()"
    by (simp_all add: ok_shutdown_def)
  from shutdown_sequential [of ready_globals failing_context_close] c f
  have 1: "shutdownBrowser failing_context_close ready_globals =
     ([ContextClose], Inl ''browserContext.close: Connection closed'')" by blast
  from shutdown_sequential [of ready_globals ok_shutdown] c ok
  have 2: "shutdownBrowser ok_shutdown ready_globals = ([ContextClose, BrowserClose], Inr ())"
    and 3: "snd (shutdownBrowser ok_shutdown ready_globals) = Inr ()" by auto
  from 1 2 3 show ?thesis by blast
qed

text \<open>
  The claim as stated fails: when closing the context fails, the browser, which exists, is
  not closed.
\<close>

theorem context_close_failure_skips_browser_close:
  "shutdownBrowser failing_context_close ready_globals =
     ([ContextClose], Inl ''browserContext.close: Connection closed'') \<and>
   browser ready_globals = Some 1 \<and>
   BrowserClose \<notin> set (fst (shutdownBrowser failing_context_close ready_globals))"
  by code_simp

text \<open>
  C10. \<^verbatim>\<open>isValidUrl\<close> accepts exactly the strings that the \<^verbatim>\<open>URL\<close> constructor parses. The
  handler answers 400 exactly when the \<open>url\<close> field is missing, is the empty string (which
  no URL parser accepts) or does not parse. Nothing else is asked of the URL: whatever the
  parser makes of it (any protocol), a request that reaches the fetch navigates to the
  string as it was given.
\<close>

theorem url_validation:
  "(isValidUrl URL s \<longleftrightarrow> (\<exists>parsed. URL s = Inr parsed)) \<and>
   ((\<exists>t g' b. scrape URL getError B env g body = (t, g', Responded 400 b)) \<longleftrightarrow>
      (case url body of None \<Rightarrow> True | Some u \<Rightarrow> u = [] \<or> (\<forall>parsed. URL u \<noteq> Inr parsed))) \<and>
   (\<forall>u parsed. url body = Some u \<and> URL u = Inr parsed \<and> reaches_fetch URL B env g body \<longrightarrow>
      (\<exists>t g' out rest. scrape URL getError B env g body = (t, g', out) \<and>
         navigations t = (u, load, timeout_of body) # rest))"
proof (intro conjI)
  show "isValidUrl URL s \<longleftrightarrow> (\<exists>parsed. URL s = Inr parsed)"
    by (cases "URL s") (simp_all add: isValidUrl_def)
next
  have rv: "request_valid URL body \<longleftrightarrow>
      \<not> (case url body of None \<Rightarrow> True | Some u \<Rightarrow> u = [] \<or> (\<forall>parsed. URL u \<noteq> Inr parsed))"
    by (auto simp: request_valid_def isValidUrl_def split: option.splits sum.splits)
  show "(\<exists>t g' b. scrape URL getError B env g body = (t, g', Responded 400 b)) \<longleftrightarrow>
      (case url body of None \<Rightarrow> True | Some u \<Rightarrow> u = [] \<or> (\<forall>parsed. URL u \<noteq> Inr parsed))"
  proof
    assume "\<exists>t g' b. scrape URL getError B env g body = (t, g', Responded 400 b)"
    then obtain t g' b where run: "scrape URL getError B env g body = (t, g', Responded 400 b)"
      by blast
    from scrape_responses [OF run] have "\<not> request_valid URL body"
      by (auto simp: success_response_def fetch_failed_response_def split: option.splits)
    with rv show "case url body of None \<Rightarrow> True
        | Some u \<Rightarrow> u = [] \<or> (\<forall>parsed. URL u \<noteq> Inr parsed)" by simp
  next
    assume "case url body of None \<Rightarrow> True | Some u \<Rightarrow> u = [] \<or> (\<forall>parsed. URL u \<noteq> Inr parsed)"
    with rv have "\<not> request_valid URL body" by simp
    from scrape_invalid [OF this] show "\<exists>t g' b. scrape URL getError B env g body =
        (t, g', Responded 400 b)" by blast
  qed
next
  show "\<forall>u parsed. url body = Some u \<and> URL u = Inr parsed \<and> reaches_fetch URL B env g body \<longrightarrow>
      (\<exists>t g' out rest. scrape URL getError B env g body = (t, g', out) \<and>
         navigations t = (u, load, timeout_of body) # rest)"
    using scrape_navigates_first by blast
qed

theorem url_validation_witness:
  "sample_URL ''mailto:someone@example.com'' = Inr \<lparr> protocol = ''mailto:'', hostname = [] \<rparr> \<and>
   isValidUrl sample_URL ''mailto:someone@example.com'' \<and>
   reaches_fetch sample_URL False (sample_env plain_page) ready_globals
     (sample_request ''mailto:someone@example.com'') \<and>
   (\<exists>t g' out rest.
      scrape sample_URL getError_spec False (sample_env plain_page) ready_globals
        (sample_request ''mailto:someone@example.com'') = (t, g', out) \<and>
      navigations t = (''mailto:someone@example.com'', load, 15000) # rest)"
proof -
  let ?u = "''mailto:someone@example.com''"
  let ?body = "sample_request ?u"
  let ?env = "sample_env plain_page"
  have parsed: "sample_URL ?u = Inr \<lparr> protocol = ''mailto:'', hostname = [] \<rparr>"
    by (simp add: sample_URL_def)
  have reach: "reaches_fetch sample_URL False ?env ready_globals ?body"
    by code_simp
  have u: "url ?body = Some ?u" by (simp add: sample_request_def)
  have tmo: "timeout_of ?body = 15000" by (simp add: timeout_of_def sample_request_def)
  note v = url_validation [of sample_URL ?u getError_spec False ?env ready_globals ?body]
  from conjunct1 [OF v] parsed have valid: "isValidUrl sample_URL ?u" by blast
  from conjunct2 [OF conjunct2 [OF v]] u parsed reach
  have "\<exists>t g' out rest. scrape sample_URL getError_spec False ?env ready_globals ?body =
      (t, g', out) \<and> navigations t = (?u, load, timeout_of ?body) # rest"
    by blast
  then have "\<exists>t g' out rest. scrape sample_URL getError_spec False ?env ready_globals ?body =
      (t, g', out) \<and> navigations t = (?u, load, 15000) # rest"
    by (simp only: tmo)
  with parsed valid reach show ?thesis by blast
qed

end
